theory Spec2Isabelle
  imports Main "HOL-Library.Word" "HOL-Library.Monad_Syntax"
begin

unbundle bit_operations_syntax

section \<open>Byte codec (modbus\_byte\_order\_convert.c)\<close>

text \<open>
  Buffers are byte lists: a pointer \<open>buf\<close> is the list of the bytes of its object from
  \<open>buf\<close> on, and \<open>buf + k\<close> is \<open>drop k buf\<close>. The \<open>put\<close> functions write through the
  pointer and return the number of bytes written; the model returns the bytes written, in
  order, and the C return value is the length of that list. The \<open>get\<close> functions read
  through the pointer; reading past the end of the object is undefined in C and is the
  value \<open>None\<close> here.
\<close>

type_synonym u8 = "8 word"
type_synonym u16 = "16 word"

definition modbus_cvt_u8_put :: "u8 \<Rightarrow> u8 list" where
  "modbus_cvt_u8_put val = [val]"

definition modbus_cvt_u8_get :: "u8 list \<Rightarrow> u8 option" where
  "modbus_cvt_u8_get buf = (case buf of [] \<Rightarrow> None | b # _ \<Rightarrow> Some b)"

definition modbus_cvt_u16_put :: "u16 \<Rightarrow> u8 list" where
  "modbus_cvt_u16_put val = [ucast (drop_bit 8 val), ucast val]"

definition modbus_cvt_u16_get :: "u8 list \<Rightarrow> u16 option" where
  "modbus_cvt_u16_get buf =
     (case buf of
        b0 # b1 # _ \<Rightarrow> Some (push_bit 8 (ucast b0) + ucast b1)
      | _ \<Rightarrow> None)"

section \<open>PDU codec (modbus\_pdu.c)\<close>

text \<open>
  Modelled from the spec: the header \<open>modbus_pdu.h\<close> is not part of the sources, so the
  function-code constants carry the values of the spec's function code set (0x01 read
  coils to 0x17 read/write multiple registers). The two function codes that the
  dispatchers name but do not serve (read exception status, report slave id) carry their
  standard Modbus values 0x07 and 0x11.
\<close>

definition MODBUS_FC_READ_COILS :: u8 where "MODBUS_FC_READ_COILS = 0x01"
definition MODBUS_FC_READ_DISCRETE_INPUTS :: u8 where "MODBUS_FC_READ_DISCRETE_INPUTS = 0x02"
definition MODBUS_FC_READ_HOLDING_REGISTERS :: u8 where "MODBUS_FC_READ_HOLDING_REGISTERS = 0x03"
definition MODBUS_FC_READ_INPUT_REGISTERS :: u8 where "MODBUS_FC_READ_INPUT_REGISTERS = 0x04"
definition MODBUS_FC_WRITE_SINGLE_COIL :: u8 where "MODBUS_FC_WRITE_SINGLE_COIL = 0x05"
definition MODBUS_FC_WRITE_SINGLE_REGISTER :: u8 where "MODBUS_FC_WRITE_SINGLE_REGISTER = 0x06"
definition MODBUS_FC_READ_EXCEPTION_STATUS :: u8 where "MODBUS_FC_READ_EXCEPTION_STATUS = 0x07"
definition MODBUS_FC_WRITE_MULTIPLE_COILS :: u8 where "MODBUS_FC_WRITE_MULTIPLE_COILS = 0x0F"
definition MODBUS_FC_WRITE_MULTIPLE_REGISTERS :: u8 where "MODBUS_FC_WRITE_MULTIPLE_REGISTERS = 0x10"
definition MODBUS_FC_REPORT_SLAVE_ID :: u8 where "MODBUS_FC_REPORT_SLAVE_ID = 0x11"
definition MODBUS_FC_MASK_WRITE_REGISTER :: u8 where "MODBUS_FC_MASK_WRITE_REGISTER = 0x16"
definition MODBUS_FC_WRITE_AND_READ_REGISTERS :: u8 where "MODBUS_FC_WRITE_AND_READ_REGISTERS = 0x17"

text \<open>
  Modelled from the spec: the macro \<open>MODBUS_FC_EXCEPT_CHK\<close> of the missing header tests
  for an exception response, which the spec gives as "if the high bit of fc is set, parse
  as exception".
\<close>

definition MODBUS_FC_EXCEPT_CHK :: "u8 \<Rightarrow> bool" where
  "MODBUS_FC_EXCEPT_CHK fc = (fc AND 0x80 \<noteq> 0)"

text \<open>
  Modelled from the spec: the enumeration \<open>mb_pdu_type_t\<close> of the missing header, the
  direction (request or response) of the spec's make and parse dispatch. \<open>MB_PDU_TYPE_OTHER\<close>
  stands for every value of the C enumeration other than the two that the source names,
  which the \<open>default\<close> branches of \<open>modbus_pdu_make\<close> and \<open>modbus_pdu_parse\<close> serve.
\<close>

datatype mb_pdu_type_t = MB_PDU_TYPE_REQ | MB_PDU_TYPE_RSP | MB_PDU_TYPE_OTHER

text \<open>
  Modelled from the spec: the union \<open>mb_pdu_t\<close> of the missing header, after the spec's
  table of PDU shapes and the members that the source casts to, one constructor per
  member, fields in wire order. Every member starts with the function code, which
  \<open>pdu_fc\<close> reads (\<open>pdu->fc\<close> in the source). A payload pointer \<open>pdata\<close> is the list of the
  \<open>dlen\<close> bytes it designates.
\<close>

datatype mb_pdu_t =
    Rd_req u8 u16 u16                      \<comment> \<open>fc, addr, nb\<close>
  | Rd_rsp u8 u8 "u8 list"                 \<comment> \<open>fc, dlen, pdata\<close>
  | Wr_single u8 u16 u16                   \<comment> \<open>fc, addr, val\<close>
  | Wr_req u8 u16 u16 u8 "u8 list"         \<comment> \<open>fc, addr, nb, dlen, pdata\<close>
  | Wr_rsp u8 u16 u16                      \<comment> \<open>fc, addr, nb\<close>
  | Mask_wr u8 u16 u16 u16                 \<comment> \<open>fc, addr, val_and, val_or\<close>
  | Wr_rd_req u8 u16 u16 u16 u16 u8 "u8 list"
      \<comment> \<open>fc, rd_addr, rd_nb, wr_addr, wr_nb, dlen, pdata\<close>
  | Except u8 u8                           \<comment> \<open>fc, ec\<close>

fun pdu_fc :: "mb_pdu_t \<Rightarrow> u8" where
  "pdu_fc (Rd_req fc _ _) = fc"
| "pdu_fc (Rd_rsp fc _ _) = fc"
| "pdu_fc (Wr_single fc _ _) = fc"
| "pdu_fc (Wr_req fc _ _ _ _) = fc"
| "pdu_fc (Wr_rsp fc _ _) = fc"
| "pdu_fc (Mask_wr fc _ _ _) = fc"
| "pdu_fc (Wr_rd_req fc _ _ _ _ _ _) = fc"
| "pdu_fc (Except fc _) = fc"

subsection \<open>Serialisers\<close>

text \<open>
  A serialiser casts the union pointer to the member it writes. The model returns the
  bytes written (the C return value \<open>p - buf\<close> is their number). It returns \<open>None\<close> where
  the C behaviour depends on what the shallow embedding does not hold: the union read
  through a member other than the one stored, or \<open>memcpy\<close> reading more than \<open>pdata\<close>
  holds.
\<close>

fun modbus_pdu_except_make :: "mb_pdu_t \<Rightarrow> u8 list option" where
  "modbus_pdu_except_make (Except fc ec) =
     Some (modbus_cvt_u8_put fc @ modbus_cvt_u8_put ec)"
| "modbus_pdu_except_make _ = None"

fun modbus_pdu_rd_req_make :: "mb_pdu_t \<Rightarrow> u8 list option" where
  "modbus_pdu_rd_req_make (Rd_req fc addr nb) =
     Some (modbus_cvt_u8_put fc @ modbus_cvt_u16_put addr @ modbus_cvt_u16_put nb)"
| "modbus_pdu_rd_req_make _ = None"

fun modbus_pdu_rd_rsp_make :: "mb_pdu_t \<Rightarrow> u8 list option" where
  "modbus_pdu_rd_rsp_make (Rd_rsp fc dlen pdata) =
     (if unat dlen \<le> length pdata
      then Some (modbus_cvt_u8_put fc @ modbus_cvt_u8_put dlen @ take (unat dlen) pdata)
      else None)"
| "modbus_pdu_rd_rsp_make _ = None"

fun modbus_pdu_wr_single_make :: "mb_pdu_t \<Rightarrow> u8 list option" where
  "modbus_pdu_wr_single_make (Wr_single fc addr val) =
     Some (modbus_cvt_u8_put fc @ modbus_cvt_u16_put addr @ modbus_cvt_u16_put val)"
| "modbus_pdu_wr_single_make _ = None"

fun modbus_pdu_wr_req_make :: "mb_pdu_t \<Rightarrow> u8 list option" where
  "modbus_pdu_wr_req_make (Wr_req fc addr nb dlen pdata) =
     (if unat dlen \<le> length pdata
      then Some (modbus_cvt_u8_put fc @ modbus_cvt_u16_put addr @ modbus_cvt_u16_put nb
                 @ modbus_cvt_u8_put dlen @ take (unat dlen) pdata)
      else None)"
| "modbus_pdu_wr_req_make _ = None"

fun modbus_pdu_wr_rsp_make :: "mb_pdu_t \<Rightarrow> u8 list option" where
  "modbus_pdu_wr_rsp_make (Wr_rsp fc addr nb) =
     Some (modbus_cvt_u8_put fc @ modbus_cvt_u16_put addr @ modbus_cvt_u16_put nb)"
| "modbus_pdu_wr_rsp_make _ = None"

fun modbus_pdu_mask_wr_make :: "mb_pdu_t \<Rightarrow> u8 list option" where
  "modbus_pdu_mask_wr_make (Mask_wr fc addr val_and val_or) =
     Some (modbus_cvt_u8_put fc @ modbus_cvt_u16_put addr @ modbus_cvt_u16_put val_and
           @ modbus_cvt_u16_put val_or)"
| "modbus_pdu_mask_wr_make _ = None"

fun modbus_pdu_wr_rd_req_make :: "mb_pdu_t \<Rightarrow> u8 list option" where
  "modbus_pdu_wr_rd_req_make (Wr_rd_req fc rd_addr rd_nb wr_addr wr_nb dlen pdata) =
     (if unat dlen \<le> length pdata
      then Some (modbus_cvt_u8_put fc @ modbus_cvt_u16_put rd_addr @ modbus_cvt_u16_put rd_nb
                 @ modbus_cvt_u16_put wr_addr @ modbus_cvt_u16_put wr_nb
                 @ modbus_cvt_u8_put dlen @ take (unat dlen) pdata)
      else None)"
| "modbus_pdu_wr_rd_req_make _ = None"

definition modbus_pdu_req_make :: "mb_pdu_t \<Rightarrow> u8 list option" where
  "modbus_pdu_req_make pdu =
     (let fc = pdu_fc pdu in
      if fc = MODBUS_FC_READ_COILS then modbus_pdu_rd_req_make pdu
      else if fc = MODBUS_FC_READ_DISCRETE_INPUTS then modbus_pdu_rd_req_make pdu
      else if fc = MODBUS_FC_READ_HOLDING_REGISTERS then modbus_pdu_rd_req_make pdu
      else if fc = MODBUS_FC_READ_INPUT_REGISTERS then modbus_pdu_rd_req_make pdu
      else if fc = MODBUS_FC_WRITE_SINGLE_COIL then modbus_pdu_wr_single_make pdu
      else if fc = MODBUS_FC_WRITE_SINGLE_REGISTER then modbus_pdu_wr_single_make pdu
      else if fc = MODBUS_FC_READ_EXCEPTION_STATUS then Some []
      else if fc = MODBUS_FC_WRITE_MULTIPLE_COILS then modbus_pdu_wr_req_make pdu
      else if fc = MODBUS_FC_WRITE_MULTIPLE_REGISTERS then modbus_pdu_wr_req_make pdu
      else if fc = MODBUS_FC_REPORT_SLAVE_ID then Some []
      else if fc = MODBUS_FC_MASK_WRITE_REGISTER then modbus_pdu_mask_wr_make pdu
      else if fc = MODBUS_FC_WRITE_AND_READ_REGISTERS then modbus_pdu_wr_rd_req_make pdu
      else Some [])"

text \<open>
  The source defines this function as \<open>mb_pdu_rsp_make\<close> and calls it as
  \<open>modbus_pdu_rsp_make\<close>; the model uses the name of the call.
\<close>

definition modbus_pdu_rsp_make :: "mb_pdu_t \<Rightarrow> u8 list option" where
  "modbus_pdu_rsp_make pdu =
     (let fc = pdu_fc pdu in
      if MODBUS_FC_EXCEPT_CHK fc then modbus_pdu_except_make pdu
      else if fc = MODBUS_FC_READ_COILS then modbus_pdu_rd_rsp_make pdu
      else if fc = MODBUS_FC_READ_DISCRETE_INPUTS then modbus_pdu_rd_rsp_make pdu
      else if fc = MODBUS_FC_READ_HOLDING_REGISTERS then modbus_pdu_rd_rsp_make pdu
      else if fc = MODBUS_FC_READ_INPUT_REGISTERS then modbus_pdu_rd_rsp_make pdu
      else if fc = MODBUS_FC_WRITE_SINGLE_COIL then modbus_pdu_wr_single_make pdu
      else if fc = MODBUS_FC_WRITE_SINGLE_REGISTER then modbus_pdu_wr_single_make pdu
      else if fc = MODBUS_FC_READ_EXCEPTION_STATUS then Some []
      else if fc = MODBUS_FC_WRITE_MULTIPLE_COILS then modbus_pdu_wr_rsp_make pdu
      else if fc = MODBUS_FC_WRITE_MULTIPLE_REGISTERS then modbus_pdu_wr_rsp_make pdu
      else if fc = MODBUS_FC_REPORT_SLAVE_ID then Some []
      else if fc = MODBUS_FC_MASK_WRITE_REGISTER then modbus_pdu_mask_wr_make pdu
      else if fc = MODBUS_FC_WRITE_AND_READ_REGISTERS then modbus_pdu_rd_rsp_make pdu
      else Some [])"

definition modbus_pdu_make :: "mb_pdu_t \<Rightarrow> mb_pdu_type_t \<Rightarrow> u8 list option" where
  "modbus_pdu_make pdu type =
     (case type of
        MB_PDU_TYPE_REQ \<Rightarrow> modbus_pdu_req_make pdu
      | MB_PDU_TYPE_RSP \<Rightarrow> modbus_pdu_rsp_make pdu
      | MB_PDU_TYPE_OTHER \<Rightarrow> Some [])"

subsection \<open>Parsers\<close>

text \<open>
  A parser takes the buffer, the length \<open>len\<close> the caller passes, and the union it writes
  to; it returns the C return value and the union afterwards (unchanged where the source
  returns before writing). The outer \<open>None\<close> is a read past the end of the buffer
  object. A payload pointer into the buffer at offset \<open>k\<close> is \<open>take dlen (drop k buf)\<close>.
\<close>

definition modbus_pdu_except_parse :: "u8 list \<Rightarrow> int \<Rightarrow> mb_pdu_t \<Rightarrow> (int \<times> mb_pdu_t) option" where
  "modbus_pdu_except_parse buf len pdu =
     (if len < 2 then Some (0, pdu)
      else do {
        fc \<leftarrow> modbus_cvt_u8_get buf;
        ec \<leftarrow> modbus_cvt_u8_get (drop 1 buf);
        Some (2, Except fc ec)
      })"

definition modbus_pdu_rd_req_parse :: "u8 list \<Rightarrow> int \<Rightarrow> mb_pdu_t \<Rightarrow> (int \<times> mb_pdu_t) option" where
  "modbus_pdu_rd_req_parse buf len pdu =
     (if len < 5 then Some (0, pdu)
      else do {
        fc \<leftarrow> modbus_cvt_u8_get buf;
        addr \<leftarrow> modbus_cvt_u16_get (drop 1 buf);
        nb \<leftarrow> modbus_cvt_u16_get (drop 3 buf);
        Some (5, Rd_req fc addr nb)
      })"

definition modbus_pdu_rd_rsp_parse :: "u8 list \<Rightarrow> int \<Rightarrow> mb_pdu_t \<Rightarrow> (int \<times> mb_pdu_t) option" where
  "modbus_pdu_rd_rsp_parse buf len pdu =
     (if len < 3 then Some (0, pdu)
      else do {
        fc \<leftarrow> modbus_cvt_u8_get buf;
        dlen \<leftarrow> modbus_cvt_u8_get (drop 1 buf);
        Some (2 + uint dlen, Rd_rsp fc dlen (take (unat dlen) (drop 2 buf)))
      })"

definition modbus_pdu_wr_single_parse :: "u8 list \<Rightarrow> int \<Rightarrow> mb_pdu_t \<Rightarrow> (int \<times> mb_pdu_t) option" where
  "modbus_pdu_wr_single_parse buf len pdu =
     (if len < 5 then Some (0, pdu)
      else do {
        fc \<leftarrow> modbus_cvt_u8_get buf;
        addr \<leftarrow> modbus_cvt_u16_get (drop 1 buf);
        val \<leftarrow> modbus_cvt_u16_get (drop 3 buf);
        Some (5, Wr_single fc addr val)
      })"

definition modbus_pdu_wr_req_parse :: "u8 list \<Rightarrow> int \<Rightarrow> mb_pdu_t \<Rightarrow> (int \<times> mb_pdu_t) option" where
  "modbus_pdu_wr_req_parse buf len pdu =
     (if len < 7 then Some (0, pdu)
      else do {
        fc \<leftarrow> modbus_cvt_u8_get buf;
        addr \<leftarrow> modbus_cvt_u16_get (drop 1 buf);
        nb \<leftarrow> modbus_cvt_u16_get (drop 3 buf);
        dlen \<leftarrow> modbus_cvt_u8_get (drop 5 buf);
        Some (6 + uint dlen, Wr_req fc addr nb dlen (take (unat dlen) (drop 6 buf)))
      })"

definition modbus_pdu_wr_rsp_parse :: "u8 list \<Rightarrow> int \<Rightarrow> mb_pdu_t \<Rightarrow> (int \<times> mb_pdu_t) option" where
  "modbus_pdu_wr_rsp_parse buf len pdu =
     (if len < 5 then Some (0, pdu)
      else do {
        fc \<leftarrow> modbus_cvt_u8_get buf;
        addr \<leftarrow> modbus_cvt_u16_get (drop 1 buf);
        nb \<leftarrow> modbus_cvt_u16_get (drop 3 buf);
        Some (5, Wr_rsp fc addr nb)
      })"

definition modbus_pdu_mask_wr_parse :: "u8 list \<Rightarrow> int \<Rightarrow> mb_pdu_t \<Rightarrow> (int \<times> mb_pdu_t) option" where
  "modbus_pdu_mask_wr_parse buf len pdu =
     (if len < 7 then Some (0, pdu)
      else do {
        fc \<leftarrow> modbus_cvt_u8_get buf;
        addr \<leftarrow> modbus_cvt_u16_get (drop 1 buf);
        val_and \<leftarrow> modbus_cvt_u16_get (drop 3 buf);
        val_or \<leftarrow> modbus_cvt_u16_get (drop 5 buf);
        Some (7, Mask_wr fc addr val_and val_or)
      })"

definition modbus_pdu_wr_rd_req_parse :: "u8 list \<Rightarrow> int \<Rightarrow> mb_pdu_t \<Rightarrow> (int \<times> mb_pdu_t) option" where
  "modbus_pdu_wr_rd_req_parse buf len pdu =
     (if len < 11 then Some (0, pdu)
      else do {
        fc \<leftarrow> modbus_cvt_u8_get buf;
        rd_addr \<leftarrow> modbus_cvt_u16_get (drop 1 buf);
        rd_nb \<leftarrow> modbus_cvt_u16_get (drop 3 buf);
        wr_addr \<leftarrow> modbus_cvt_u16_get (drop 5 buf);
        wr_nb \<leftarrow> modbus_cvt_u16_get (drop 7 buf);
        dlen \<leftarrow> modbus_cvt_u8_get (drop 9 buf);
        Some (10 + uint dlen, Wr_rd_req fc rd_addr rd_nb wr_addr wr_nb dlen (take (unat dlen) (drop 10 buf)))
      })"

definition modbus_pdu_req_parse :: "u8 list \<Rightarrow> int \<Rightarrow> mb_pdu_t \<Rightarrow> (int \<times> mb_pdu_t) option" where
  "modbus_pdu_req_parse buf len pdu =
     (case buf of [] \<Rightarrow> None | fc # _ \<Rightarrow>
      if fc = MODBUS_FC_READ_COILS then modbus_pdu_rd_req_parse buf len pdu
      else if fc = MODBUS_FC_READ_DISCRETE_INPUTS then modbus_pdu_rd_req_parse buf len pdu
      else if fc = MODBUS_FC_READ_HOLDING_REGISTERS then modbus_pdu_rd_req_parse buf len pdu
      else if fc = MODBUS_FC_READ_INPUT_REGISTERS then modbus_pdu_rd_req_parse buf len pdu
      else if fc = MODBUS_FC_WRITE_SINGLE_COIL then modbus_pdu_wr_single_parse buf len pdu
      else if fc = MODBUS_FC_WRITE_SINGLE_REGISTER then modbus_pdu_wr_single_parse buf len pdu
      else if fc = MODBUS_FC_READ_EXCEPTION_STATUS then Some (- 1, pdu)
      else if fc = MODBUS_FC_WRITE_MULTIPLE_COILS then modbus_pdu_wr_req_parse buf len pdu
      else if fc = MODBUS_FC_WRITE_MULTIPLE_REGISTERS then modbus_pdu_wr_req_parse buf len pdu
      else if fc = MODBUS_FC_REPORT_SLAVE_ID then Some (- 1, pdu)
      else if fc = MODBUS_FC_MASK_WRITE_REGISTER then modbus_pdu_mask_wr_parse buf len pdu
      else if fc = MODBUS_FC_WRITE_AND_READ_REGISTERS then modbus_pdu_wr_rd_req_parse buf len pdu
      else Some (- 1, pdu))"

definition modbus_pdu_rsp_parse :: "u8 list \<Rightarrow> int \<Rightarrow> mb_pdu_t \<Rightarrow> (int \<times> mb_pdu_t) option" where
  "modbus_pdu_rsp_parse buf len pdu =
     (case buf of [] \<Rightarrow> None | fc # _ \<Rightarrow>
      if MODBUS_FC_EXCEPT_CHK fc then modbus_pdu_except_parse buf len pdu
      else if fc = MODBUS_FC_READ_COILS then modbus_pdu_rd_rsp_parse buf len pdu
      else if fc = MODBUS_FC_READ_DISCRETE_INPUTS then modbus_pdu_rd_rsp_parse buf len pdu
      else if fc = MODBUS_FC_READ_HOLDING_REGISTERS then modbus_pdu_rd_rsp_parse buf len pdu
      else if fc = MODBUS_FC_READ_INPUT_REGISTERS then modbus_pdu_rd_rsp_parse buf len pdu
      else if fc = MODBUS_FC_WRITE_SINGLE_COIL then modbus_pdu_wr_single_parse buf len pdu
      else if fc = MODBUS_FC_WRITE_SINGLE_REGISTER then modbus_pdu_wr_single_parse buf len pdu
      else if fc = MODBUS_FC_READ_EXCEPTION_STATUS then Some (- 1, pdu)
      else if fc = MODBUS_FC_WRITE_MULTIPLE_COILS then modbus_pdu_wr_rsp_parse buf len pdu
      else if fc = MODBUS_FC_WRITE_MULTIPLE_REGISTERS then modbus_pdu_wr_rsp_parse buf len pdu
      else if fc = MODBUS_FC_REPORT_SLAVE_ID then Some (- 1, pdu)
      else if fc = MODBUS_FC_MASK_WRITE_REGISTER then modbus_pdu_mask_wr_parse buf len pdu
      else if fc = MODBUS_FC_WRITE_AND_READ_REGISTERS then modbus_pdu_rd_rsp_parse buf len pdu
      else Some (- 1, pdu))"

definition modbus_pdu_parse ::
  "u8 list \<Rightarrow> int \<Rightarrow> mb_pdu_t \<Rightarrow> mb_pdu_type_t \<Rightarrow> (int \<times> mb_pdu_t) option" where
  "modbus_pdu_parse buf len pdu type =
     (case type of
        MB_PDU_TYPE_REQ \<Rightarrow> modbus_pdu_req_parse buf len pdu
      | MB_PDU_TYPE_RSP \<Rightarrow> modbus_pdu_rsp_parse buf len pdu
      | MB_PDU_TYPE_OTHER \<Rightarrow> Some (0, pdu))"

section \<open>CRC-16\<close>

text \<open>
  Modelled from the spec: one bit-step of the CRC, whose source file is not part of the
  sources. The spec: "shift right one; if the shifted-out bit is 1, XOR with 0xA001".
\<close>

definition crc16_bit_step :: "u16 \<Rightarrow> u16" where
  "crc16_bit_step crc = (if bit crc 0 then drop_bit 1 crc XOR 0xA001 else drop_bit 1 crc)"

text \<open>
  Modelled from the spec: the CRC after one more byte. The spec: "For each byte, XOR into
  the low byte of the CRC, then for each of 8 bit-steps" the step above.
\<close>

definition crc16_byte :: "u16 \<Rightarrow> u8 \<Rightarrow> u16" where
  "crc16_byte crc b = (crc16_bit_step ^^ 8) (crc XOR ucast b)"

text \<open>
  Modelled from the spec: \<open>modbus_crc_cal\<close>, which the RTU wrapper calls and whose source
  file is not part of the sources. The spec: "Seed 0xFFFF", then the bytes in order. The
  function reads \<open>len\<close> bytes of the buffer; the result is \<open>None\<close> where the buffer object
  holds fewer.
\<close>

definition modbus_crc_cal :: "u8 list \<Rightarrow> int \<Rightarrow> u16 option" where
  "modbus_crc_cal buf len =
     (if nat len \<le> length buf then Some (foldl crc16_byte 0xFFFF (take (nat len) buf))
      else None)"

section \<open>RTU frame wrapper (modbus\_rtu.c, modbus\_rtu.h)\<close>

text \<open>
  Modelled from the spec: \<open>MB_PDU_SIZE_MIN\<close> is defined in the missing header
  \<open>modbus_pdu.h\<close>. The spec gives the minimum RTU frame length as 4, which is
  \<open>MB_RTU_SADDR_SIZE + MB_RTU_CRC_SIZE + MB_PDU_SIZE_MIN\<close> for a minimum PDU size of 1.
\<close>

definition MB_PDU_SIZE_MIN :: int where "MB_PDU_SIZE_MIN = 1"

definition MB_RTU_SADDR_SIZE :: int where "MB_RTU_SADDR_SIZE = 1"
definition MB_RTU_CRC_SIZE :: int where "MB_RTU_CRC_SIZE = 2"
definition MB_RTU_FRM_MIN :: int where
  "MB_RTU_FRM_MIN = MB_RTU_SADDR_SIZE + MB_RTU_CRC_SIZE + MB_PDU_SIZE_MIN"

record mb_rtu_frm_t =
  saddr :: u8
  pdu :: mb_pdu_t

text \<open>
  \<open>modbus_rtu_frame_make\<close> returns the bytes written to \<open>buf\<close>; the C return value is
  their number. The CRC is computed over the address and the PDU just written and is
  appended low byte first.
\<close>

definition modbus_rtu_frame_make :: "mb_rtu_frm_t \<Rightarrow> mb_pdu_type_t \<Rightarrow> u8 list option" where
  "modbus_rtu_frame_make frm type = do {
     let a = modbus_cvt_u8_put (saddr frm);
     pb \<leftarrow> modbus_pdu_make (pdu frm) type;
     let written = a @ pb;
     crc \<leftarrow> modbus_crc_cal written (int (length written));
     Some (written @ [ucast crc, ucast (drop_bit 8 crc)])
   }"

text \<open>
  \<open>modbus_rtu_frame_parse\<close> returns the C return value and the frame structure
  afterwards: the address is stored as soon as the length check has passed, the PDU as
  far as the PDU parser wrote it.
\<close>

definition modbus_rtu_frame_parse ::
  "u8 list \<Rightarrow> int \<Rightarrow> mb_rtu_frm_t \<Rightarrow> mb_pdu_type_t \<Rightarrow> (int \<times> mb_rtu_frm_t) option" where
  "modbus_rtu_frame_parse buf len frm type =
     (if len < MB_RTU_FRM_MIN then Some (0, frm)
      else do {
        a \<leftarrow> modbus_cvt_u8_get buf;
        let frm1 = frm\<lparr>saddr := a\<rparr>;
        let remain = len - (MB_RTU_SADDR_SIZE + MB_RTU_CRC_SIZE);
        (pdu_len, p) \<leftarrow> modbus_pdu_parse (drop 1 buf) remain (pdu frm1) type;
        let frm2 = frm1\<lparr>pdu := p\<rparr>;
        if pdu_len \<le> 0 then Some (pdu_len, frm2)
        else if remain < pdu_len then Some (0, frm2)
        else do {
          let flen = pdu_len + (MB_RTU_SADDR_SIZE + MB_RTU_CRC_SIZE);
          cal_crc \<leftarrow> modbus_crc_cal buf flen;
          if cal_crc \<noteq> 0 then Some (0, frm2) else Some (pdu_len, frm2)
        }
      })"

section \<open>Transport back end (modbus\_backend.h, modbus\_backend.c)\<close>

text \<open>
  The port layer (the serial and socket drivers, the millisecond clock and the delay) is
  an external collaborator and is not part of the sources. Its functions are parameters
  of the model and act on an abstract world \<open>'w\<close>: a driver call takes the world and
  returns its C result with the world afterwards. A handle (\<open>void *hinst\<close>) is the integer
  value of the pointer, \<open>0\<close> for \<open>NULL\<close>. Pointers to structures are options, \<open>None\<close> for
  \<open>NULL\<close>.
\<close>

datatype mb_backend_type_t = MB_BACKEND_TYPE_RTU | MB_BACKEND_TYPE_TCP | MB_BACKEND_TYPE_SOCK

record mb_backend_param_rtu_t =
  dev :: string
  baudrate :: int
  parity :: int
  pin :: int
  lvl :: int

record mb_backend_param_tcp_t =
  host :: string
  port :: int

record mb_backend_param_sock_t =
  fd :: int

datatype mb_backend_param_t =
    Param_rtu mb_backend_param_rtu_t
  | Param_tcp mb_backend_param_tcp_t
  | Param_sock mb_backend_param_sock_t

text \<open>
  The operations table. A field is \<open>None\<close> for a null function pointer. \<open>ops_read\<close> takes
  the handle and the capacity offered and returns the C result with the bytes the driver
  stored at the buffer position it was given.
\<close>

record 'w mb_backend_ops_t =
  ops_open :: "(mb_backend_param_t \<Rightarrow> 'w \<Rightarrow> int \<times> 'w) option"
  ops_close :: "(int \<Rightarrow> 'w \<Rightarrow> int \<times> 'w) option"
  ops_read :: "(int \<Rightarrow> int \<Rightarrow> 'w \<Rightarrow> (int \<times> u8 list) \<times> 'w) option"
  ops_write :: "(int \<Rightarrow> u8 list \<Rightarrow> int \<Rightarrow> 'w \<Rightarrow> int \<times> 'w) option"
  ops_flush :: "(int \<Rightarrow> 'w \<Rightarrow> int \<times> 'w) option"

record 'w mb_backend_t =
  backend_type :: mb_backend_type_t
  param :: mb_backend_param_t
  ops :: "'w mb_backend_ops_t option"
  ack_tmo_ms :: int
  byte_tmo_ms :: int
  hinst :: int

definition MB_BKD_ACK_TMO_MS_DEF :: int where "MB_BKD_ACK_TMO_MS_DEF = 300"
definition MB_BKD_BYTE_TMO_MS_DEF :: int where "MB_BKD_BYTE_TMO_MS_DEF = 32"

text \<open>
  The socket driver functions that the adopted-socket table shares with the TCP client,
  the clock and the delay, as the port layer provides them.
\<close>

record 'w mb_port_t =
  modbus_port_tcp_close :: "int \<Rightarrow> 'w \<Rightarrow> int \<times> 'w"
  modbus_port_tcp_read :: "int \<Rightarrow> int \<Rightarrow> 'w \<Rightarrow> (int \<times> u8 list) \<times> 'w"
  modbus_port_tcp_write :: "int \<Rightarrow> u8 list \<Rightarrow> int \<Rightarrow> 'w \<Rightarrow> int \<times> 'w"
  modbus_port_tcp_flush :: "int \<Rightarrow> 'w \<Rightarrow> int \<times> 'w"
  modbus_port_get_ms :: "'w \<Rightarrow> int"
  modbus_port_delay_ms :: "int \<Rightarrow> 'w \<Rightarrow> 'w"

definition mb_port_sock_ops :: "'w mb_port_t \<Rightarrow> 'w mb_backend_ops_t" where
  "mb_port_sock_ops pl =
     \<lparr>ops_open = None,
      ops_close = Some (modbus_port_tcp_close pl),
      ops_read = Some (modbus_port_tcp_read pl),
      ops_write = Some (modbus_port_tcp_write pl),
      ops_flush = Some (modbus_port_tcp_flush pl)\<rparr>"

text \<open>
  \<open>modbus_backend_create_sock\<close> (compiled under \<open>MB_USING_SOCK_BACKEND\<close>). The first
  argument says whether \<open>calloc\<close> returned memory.
\<close>

definition modbus_backend_create_sock ::
  "bool \<Rightarrow> 'w mb_port_t \<Rightarrow> mb_backend_param_sock_t \<Rightarrow> 'w mb_backend_t option" where
  "modbus_backend_create_sock alloc_ok pl sock =
     (if alloc_ok
      then Some \<lparr>backend_type = MB_BACKEND_TYPE_SOCK,
                 param = Param_sock \<lparr>fd = fd sock\<rparr>,
                 ops = Some (mb_port_sock_ops pl),
                 ack_tmo_ms = MB_BKD_ACK_TMO_MS_DEF,
                 byte_tmo_ms = MB_BKD_BYTE_TMO_MS_DEF,
                 hinst = fd sock\<rparr>
      else None)"

text \<open>
  The functions below take the back-end pointer and the world and return the C return
  value, the back end afterwards and the world afterwards.
\<close>

definition modbus_backend_open ::
  "'w mb_backend_t option \<Rightarrow> 'w \<Rightarrow> int \<times> 'w mb_backend_t option \<times> 'w" where
  "modbus_backend_open backend w =
     (case backend of
        None \<Rightarrow> (- 1, backend, w)
      | Some b \<Rightarrow>
          if hinst b \<noteq> 0 then (0, backend, w)
          else (case ops b of
                  None \<Rightarrow> (- 1, backend, w)
                | Some t \<Rightarrow>
                    (case ops_open t of
                       None \<Rightarrow> (- 1, backend, w)
                     | Some f \<Rightarrow>
                         (let (h, w1) = f (param b) w;
                              b1 = b\<lparr>hinst := h\<rparr>
                          in if hinst b1 = 0 then (- 1, Some b1, w1) else (0, Some b1, w1)))))"

definition modbus_backend_close ::
  "'w mb_backend_t option \<Rightarrow> 'w \<Rightarrow> int \<times> 'w mb_backend_t option \<times> 'w" where
  "modbus_backend_close backend w =
     (case backend of
        None \<Rightarrow> (- 1, backend, w)
      | Some b \<Rightarrow>
          if hinst b = 0 then (0, backend, w)
          else (case ops b of
                  None \<Rightarrow> (- 1, backend, w)
                | Some t \<Rightarrow>
                    (case ops_close t of
                       None \<Rightarrow> (- 1, backend, w)
                     | Some f \<Rightarrow>
                         (let (r, w1) = f (hinst b) w
                          in if r \<noteq> 0 then (- 1, backend, w1)
                             else (0, Some (b\<lparr>hinst := 0\<rparr>), w1)))))"

text \<open>
  \<open>modbus_backend_read\<close>. The loop polls the driver until the buffer is full or the idle
  time exceeds the time-out that applies. Whether it ends depends on the clock, so the
  loop carries fuel, one unit per iteration, and \<open>None\<close> is the loop still running when
  the fuel is spent. The result names the exit taken, with the idle time measured there.
  The clock value (\<open>long long\<close>) is an integer; the difference to \<open>told_ms\<close> is stored in
  the \<open>int tmo_ms\<close>, which keeps its low 32 bits as a signed value. The source reads the
  clock as \<open>modbus_port_get_ms\<close> and, for \<open>tmo_ms\<close>, as \<open>mb_port_get_ms\<close>; both are the
  one millisecond clock of the port layer.
\<close>

definition int_of_long_long :: "int \<Rightarrow> int" where
  "int_of_long_long x = (x + 2147483648) mod 4294967296 - 2147483648"

datatype read_exit =
    Exit_read_error             \<comment> \<open>the driver returned a negative value\<close>
  | Exit_buffer_full            \<comment> \<open>the loop condition \<open>pos < bufsize\<close> failed\<close>
  | Exit_byte_timeout int       \<comment> \<open>\<open>break\<close> with bytes received, \<open>tmo_ms\<close>\<close>
  | Exit_ack_timeout int        \<comment> \<open>\<open>break\<close> with nothing received, \<open>tmo_ms\<close>\<close>

definition buf_store :: "u8 list \<Rightarrow> int \<Rightarrow> int \<Rightarrow> u8 list \<Rightarrow> u8 list" where
  "buf_store buf pos len data =
     take (nat pos) buf @ take (nat len) data @ drop (nat pos + min (nat len) (length data)) buf"

fun read_loop ::
  "nat \<Rightarrow> 'w mb_port_t \<Rightarrow> (int \<Rightarrow> int \<Rightarrow> 'w \<Rightarrow> (int \<times> u8 list) \<times> 'w) \<Rightarrow> 'w mb_backend_t \<Rightarrow>
   u8 list \<Rightarrow> int \<Rightarrow> int \<Rightarrow> int \<Rightarrow> 'w \<Rightarrow> (int \<times> read_exit \<times> u8 list \<times> 'w) option" where
  "read_loop 0 pl rd b buf bufsize pos told_ms w = None"
| "read_loop (Suc fuel) pl rd b buf bufsize pos told_ms w =
     (if pos < bufsize then
        (let ((len, data), w1) = rd (hinst b) (bufsize - pos) w in
         if len < 0 then Some (- 1, Exit_read_error, buf, w1)
         else if len > 0 then
           read_loop fuel pl rd b (buf_store buf pos len data) bufsize (pos + len)
             (modbus_port_get_ms pl w1) w1
         else
           (let tmo_ms = int_of_long_long (modbus_port_get_ms pl w1 - told_ms) in
            if pos \<noteq> 0 then
              (if tmo_ms > byte_tmo_ms b then Some (pos, Exit_byte_timeout tmo_ms, buf, w1)
               else read_loop fuel pl rd b buf bufsize pos told_ms
                      (modbus_port_delay_ms pl 2 w1))
            else
              (if tmo_ms > ack_tmo_ms b then Some (pos, Exit_ack_timeout tmo_ms, buf, w1)
               else read_loop fuel pl rd b buf bufsize pos told_ms
                      (modbus_port_delay_ms pl 2 w1))))
      else Some (pos, Exit_buffer_full, buf, w))"

text \<open>
  \<open>modbus_backend_read\<close> returns the C return value, the exit of the loop (\<open>None\<close> where a
  check before the loop returned), the buffer afterwards and the world afterwards.
\<close>

definition modbus_backend_read ::
  "nat \<Rightarrow> 'w mb_port_t \<Rightarrow> 'w mb_backend_t option \<Rightarrow> u8 list option \<Rightarrow> int \<Rightarrow> 'w \<Rightarrow>
   (int \<times> read_exit option \<times> u8 list option \<times> 'w) option" where
  "modbus_backend_read fuel pl backend buf bufsize w =
     (case (backend, buf) of
        (Some b, Some bf) \<Rightarrow>
          if bufsize \<le> 0 then Some (- 1, None, buf, w)
          else if hinst b = 0 then Some (- 1, None, buf, w)
          else (case ops b of
                  None \<Rightarrow> Some (- 1, None, buf, w)
                | Some t \<Rightarrow>
                    (case ops_read t of
                       None \<Rightarrow> Some (- 1, None, buf, w)
                     | Some rd \<Rightarrow>
                         map_option (\<lambda>(r, e, bf1, w1). (r, Some e, Some bf1, w1))
                           (read_loop fuel pl rd b bf bufsize 0 (modbus_port_get_ms pl w) w)))
      | _ \<Rightarrow> Some (- 1, None, buf, w))"

definition modbus_backend_write ::
  "'w mb_backend_t option \<Rightarrow> u8 list option \<Rightarrow> int \<Rightarrow> 'w \<Rightarrow> int \<times> 'w" where
  "modbus_backend_write backend buf sz w =
     (case (backend, buf) of
        (Some b, Some bf) \<Rightarrow>
          if sz \<le> 0 then (- 1, w)
          else if hinst b = 0 then (- 1, w)
          else (case ops b of
                  None \<Rightarrow> (- 1, w)
                | Some t \<Rightarrow>
                    (case ops_write t of
                       None \<Rightarrow> (- 1, w)
                     | Some f \<Rightarrow> f (hinst b) bf sz w))
      | _ \<Rightarrow> (- 1, w))"

section \<open>Instance (modbus\_instance.h, modbus\_instance.c)\<close>

text \<open>
  The instance structure, with the fields the modelled functions use (the callback table
  and the two working buffers are not touched by them). \<open>MB_ASSERT\<close> comes from a header
  that is not part of the sources; a failed assertion stops the call and is the outcome
  \<open>MB_ASSERT_failed\<close>. As \<open>MB_USING_RAW_PRT\<close> is not defined, the raw print is not
  compiled.
\<close>

datatype mb_prot_t = MB_PROT_RTU | MB_PROT_TCP

record 'w mb_inst_t =
  inst_saddr :: u8
  prototype :: mb_prot_t
  tsid :: u16
  backend :: "'w mb_backend_t option"

datatype 'a mb_outcome = MB_ASSERT_failed | Returns 'a

text \<open>
  \<open>modbus_recv\<close> and \<open>modbus_send\<close> return the C return value, the instance afterwards
  and the world afterwards (\<open>modbus_recv\<close> also the buffer). The result of
  \<open>modbus_backend_close\<close> is dropped, as in the source.
\<close>

definition modbus_recv ::
  "nat \<Rightarrow> 'w mb_port_t \<Rightarrow> 'w mb_inst_t option \<Rightarrow> u8 list option \<Rightarrow> int \<Rightarrow> 'w \<Rightarrow>
   (int \<times> 'w mb_inst_t \<times> u8 list option \<times> 'w) mb_outcome option" where
  "modbus_recv fuel pl hi buf bufsize w =
     (case hi of
        None \<Rightarrow> Some MB_ASSERT_failed
      | Some inst \<Rightarrow>
          if backend inst = None then Some MB_ASSERT_failed
          else if buf = None then Some MB_ASSERT_failed
          else if \<not> bufsize > 0 then Some MB_ASSERT_failed
          else (case modbus_backend_read fuel pl (backend inst) buf bufsize w of
                  None \<Rightarrow> None
                | Some (len, e, buf1, w1) \<Rightarrow>
                    if len < 0 then
                      (let (r, b2, w2) = modbus_backend_close (backend inst) w1
                       in Some (Returns (len, inst\<lparr>backend := b2\<rparr>, buf1, w2)))
                    else Some (Returns (len, inst, buf1, w1))))"

definition modbus_send ::
  "'w mb_inst_t option \<Rightarrow> u8 list option \<Rightarrow> int \<Rightarrow> 'w \<Rightarrow>
   (int \<times> 'w mb_inst_t \<times> 'w) mb_outcome" where
  "modbus_send hi buf sz w =
     (case hi of
        None \<Rightarrow> MB_ASSERT_failed
      | Some inst \<Rightarrow>
          if backend inst = None then MB_ASSERT_failed
          else if buf = None then MB_ASSERT_failed
          else if \<not> sz > 0 then MB_ASSERT_failed
          else (let (len, w1) = modbus_backend_write (backend inst) buf sz w in
                if len < 0 then
                  (let (r, b2, w2) = modbus_backend_close (backend inst) w1
                   in Returns (len, inst\<lparr>backend := b2\<rparr>, w2))
                else Returns (len, inst, w1)))"

section \<open>Valid PDU values\<close>

text \<open>
  The PDU values that the codec serves in a direction: the member of the union is the one
  that the dispatcher of that direction selects for the function code, and a payload is
  present (at least one byte, as every count of the protocol is at least 1) and has the
  length that \<open>dlen\<close> announces. An exception response is any function code with the high
  bit set.
\<close>

fun valid_pdu :: "mb_pdu_type_t \<Rightarrow> mb_pdu_t \<Rightarrow> bool" where
  "valid_pdu MB_PDU_TYPE_REQ (Rd_req fc addr nb) = (fc \<in> {0x01, 0x02, 0x03, 0x04})"
| "valid_pdu MB_PDU_TYPE_REQ (Wr_single fc addr val) = (fc \<in> {0x05, 0x06})"
| "valid_pdu MB_PDU_TYPE_REQ (Wr_req fc addr nb dlen pdata) =
     (fc \<in> {0x0F, 0x10} \<and> dlen \<noteq> 0 \<and> length pdata = unat dlen)"
| "valid_pdu MB_PDU_TYPE_REQ (Mask_wr fc addr val_and val_or) = (fc = 0x16)"
| "valid_pdu MB_PDU_TYPE_REQ (Wr_rd_req fc rd_addr rd_nb wr_addr wr_nb dlen pdata) =
     (fc = 0x17 \<and> dlen \<noteq> 0 \<and> length pdata = unat dlen)"
| "valid_pdu MB_PDU_TYPE_RSP (Rd_rsp fc dlen pdata) =
     (fc \<in> {0x01, 0x02, 0x03, 0x04, 0x17} \<and> dlen \<noteq> 0 \<and> length pdata = unat dlen)"
| "valid_pdu MB_PDU_TYPE_RSP (Wr_single fc addr val) = (fc \<in> {0x05, 0x06})"
| "valid_pdu MB_PDU_TYPE_RSP (Wr_rsp fc addr nb) = (fc \<in> {0x0F, 0x10})"
| "valid_pdu MB_PDU_TYPE_RSP (Mask_wr fc addr val_and val_or) = (fc = 0x16)"
| "valid_pdu MB_PDU_TYPE_RSP (Except fc ec) = (fc AND 0x80 \<noteq> 0)"
| "valid_pdu _ _ = False"

section \<open>Test doubles for the port layer\<close>

text \<open>
  A port layer for evaluating the model at concrete inputs. The world is the clock in
  milliseconds: reading the clock returns it, a delay advances it by the time asked for.
  Every read and write of the driver returns \<open>io_ret\<close> and stores nothing, every close and
  flush returns \<open>ctl_ret\<close>.
\<close>

definition stub_port :: "int \<Rightarrow> int \<Rightarrow> int mb_port_t" where
  "stub_port io_ret ctl_ret =
     \<lparr>modbus_port_tcp_close = (\<lambda>h w. (ctl_ret, w)),
      modbus_port_tcp_read = (\<lambda>h cap w. ((io_ret, []), w)),
      modbus_port_tcp_write = (\<lambda>h bf n w. (io_ret, w)),
      modbus_port_tcp_flush = (\<lambda>h w. (ctl_ret, w)),
      modbus_port_get_ms = (\<lambda>w. w),
      modbus_port_delay_ms = (\<lambda>d w. w + d)\<rparr>"

text \<open>An adopted-socket back end on the descriptor 5 over that port layer.\<close>

definition stub_backend :: "int \<Rightarrow> int \<Rightarrow> int mb_backend_t" where
  "stub_backend io_ret ctl_ret =
     \<lparr>backend_type = MB_BACKEND_TYPE_SOCK,
      param = Param_sock \<lparr>fd = 5\<rparr>,
      ops = Some (mb_port_sock_ops (stub_port io_ret ctl_ret)),
      ack_tmo_ms = MB_BKD_ACK_TMO_MS_DEF,
      byte_tmo_ms = MB_BKD_BYTE_TMO_MS_DEF,
      hinst = 5\<rparr>"

text \<open>An instance that owns that back end.\<close>

definition stub_inst :: "int \<Rightarrow> int \<Rightarrow> int mb_inst_t" where
  "stub_inst io_ret ctl_ret =
     \<lparr>inst_saddr = 1, prototype = MB_PROT_TCP, tsid = 0,
      backend = Some (stub_backend io_ret ctl_ret)\<rparr>"

text \<open>
  The same port layer with a close that takes a second: it advances the clock by 1000
  milliseconds. The back end and the instance over it.
\<close>

definition stub_port_slow_close :: "int \<Rightarrow> int \<Rightarrow> int mb_port_t" where
  "stub_port_slow_close io_ret ctl_ret =
     (stub_port io_ret ctl_ret)\<lparr>modbus_port_tcp_close := (\<lambda>h w. (ctl_ret, w + 1000))\<rparr>"

definition stub_backend_slow_close :: "int \<Rightarrow> int \<Rightarrow> int mb_backend_t" where
  "stub_backend_slow_close io_ret ctl_ret =
     (stub_backend io_ret ctl_ret)
       \<lparr>ops := Some (mb_port_sock_ops (stub_port_slow_close io_ret ctl_ret))\<rparr>"

definition stub_inst_slow_close :: "int \<Rightarrow> int \<Rightarrow> int mb_inst_t" where
  "stub_inst_slow_close io_ret ctl_ret =
     (stub_inst io_ret ctl_ret)\<lparr>backend := Some (stub_backend_slow_close io_ret ctl_ret)\<rparr>"

section \<open>Predicates on the port layer\<close>

text \<open>
  The contract of the driver's read that the framing loop relies on: offered a positive
  capacity, it never returns more than that capacity.
\<close>

definition read_within_capacity :: "(int \<Rightarrow> int \<Rightarrow> 'w \<Rightarrow> (int \<times> u8 list) \<times> 'w) \<Rightarrow> bool" where
  "read_within_capacity rd = (\<forall>h cap w. 0 < cap \<longrightarrow> fst (fst (rd h cap w)) \<le> cap)"

text \<open>
  The clock is monotonic and moves by at most \<open>J\<close> milliseconds at a time: a read of the
  driver does not set it back, a delay of two milliseconds advances it, and neither
  takes more than \<open>J\<close> milliseconds.
\<close>

definition clock_advances ::
  "'w mb_port_t \<Rightarrow> (int \<Rightarrow> int \<Rightarrow> 'w \<Rightarrow> (int \<times> u8 list) \<times> 'w) \<Rightarrow> int \<Rightarrow> bool" where
  "clock_advances pl rd J =
     ((\<forall>h cap w. modbus_port_get_ms pl w \<le> modbus_port_get_ms pl (snd (rd h cap w)) \<and>
         modbus_port_get_ms pl (snd (rd h cap w)) \<le> modbus_port_get_ms pl w + J) \<and>
      (\<forall>w. modbus_port_get_ms pl w < modbus_port_get_ms pl (modbus_port_delay_ms pl 2 w) \<and>
         modbus_port_get_ms pl (modbus_port_delay_ms pl 2 w) \<le> modbus_port_get_ms pl w + J))"

text \<open>
  The time-outs of a back end leave room in the C \<open>int\<close> for the idle time that the loop
  can measure before it notices that a time-out has passed.
\<close>

definition timeouts_in_range :: "'w mb_backend_t \<Rightarrow> int \<Rightarrow> bool" where
  "timeouts_in_range b J =
     (max (max (ack_tmo_ms b) (byte_tmo_ms b)) 0 + 2 * J < 2147483648)"

section \<open>The record of the driver reads of a call\<close>

text \<open>
  What the framing read does is stated on the reads of the driver that a call makes. To
  have them on record, the world is paired with a log, and every read of the driver
  appends an entry to it: the value that the read returned and the clock after the read.
  Nothing else touches the log. \<open>on_world\<close> runs a driver function on the world of the pair;
  \<open>logged_read\<close> is the driver read that keeps the record; \<open>logged_port\<close>, \<open>logged_ops\<close> and
  \<open>logged_backend\<close> are a port layer, an operations table and a back end over the paired
  world, the same as the ones given except for the record.
\<close>

type_synonym poll_log = "(int \<times> int) list"

definition on_world :: "('w \<Rightarrow> 'a \<times> 'w) \<Rightarrow> 'w \<times> poll_log \<Rightarrow> 'a \<times> ('w \<times> poll_log)" where
  "on_world f wl = (fst (f (fst wl)), (snd (f (fst wl)), snd wl))"

definition logged_read ::
  "'w mb_port_t \<Rightarrow> (int \<Rightarrow> int \<Rightarrow> 'w \<Rightarrow> (int \<times> u8 list) \<times> 'w) \<Rightarrow>
   int \<Rightarrow> int \<Rightarrow> 'w \<times> poll_log \<Rightarrow> (int \<times> u8 list) \<times> ('w \<times> poll_log)" where
  "logged_read pl rd h cap wl =
     (let ((len, data), w1) = rd h cap (fst wl)
      in ((len, data), (w1, snd wl @ [(len, modbus_port_get_ms pl w1)])))"

definition logged_port :: "'w mb_port_t \<Rightarrow> ('w \<times> poll_log) mb_port_t" where
  "logged_port pl =
     \<lparr>modbus_port_tcp_close = (\<lambda>h. on_world (modbus_port_tcp_close pl h)),
      modbus_port_tcp_read = logged_read pl (modbus_port_tcp_read pl),
      modbus_port_tcp_write = (\<lambda>h bf n. on_world (modbus_port_tcp_write pl h bf n)),
      modbus_port_tcp_flush = (\<lambda>h. on_world (modbus_port_tcp_flush pl h)),
      modbus_port_get_ms = (\<lambda>wl. modbus_port_get_ms pl (fst wl)),
      modbus_port_delay_ms = (\<lambda>d wl. (modbus_port_delay_ms pl d (fst wl), snd wl))\<rparr>"

definition logged_ops :: "'w mb_port_t \<Rightarrow> 'w mb_backend_ops_t \<Rightarrow> ('w \<times> poll_log) mb_backend_ops_t" where
  "logged_ops pl t =
     \<lparr>ops_open = map_option (\<lambda>f p. on_world (f p)) (ops_open t),
      ops_close = map_option (\<lambda>f h. on_world (f h)) (ops_close t),
      ops_read = map_option (logged_read pl) (ops_read t),
      ops_write = map_option (\<lambda>f h bf n. on_world (f h bf n)) (ops_write t),
      ops_flush = map_option (\<lambda>f h. on_world (f h)) (ops_flush t)\<rparr>"

definition logged_backend :: "'w mb_port_t \<Rightarrow> 'w mb_backend_t \<Rightarrow> ('w \<times> poll_log) mb_backend_t" where
  "logged_backend pl b =
     \<lparr>backend_type = backend_type b,
      param = param b,
      ops = map_option (logged_ops pl) (ops b),
      ack_tmo_ms = ack_tmo_ms b,
      byte_tmo_ms = byte_tmo_ms b,
      hinst = hinst b\<rparr>"

text \<open>
  The time of the last progress on a record that starts at the time \<open>t0\<close>: the clock after
  the last read that returned bytes, and \<open>t0\<close> when no read did.
\<close>

definition last_progress :: "int \<Rightarrow> poll_log \<Rightarrow> int" where
  "last_progress t0 tr = foldl (\<lambda>t x. if 0 < fst x then snd x else t) t0 tr"

text \<open>
  What a call of the framing read that started at the time \<open>t0\<close>, ended at the time \<open>t1\<close>,
  returned \<open>r\<close> and made the driver reads \<open>tr\<close> has to satisfy. The driver was read at least
  once, and no read but the last reported an error. The call returns \<open>-1\<close> exactly when
  the last read of the driver reported an error. Otherwise it returns the sum of what the
  reads returned, between 0 and the buffer size; it returns 0 only when every read
  returned 0 and more than the response time-out has passed since the start; and it
  returns a positive count only when the buffer is full or more than the inter-byte
  time-out has passed since the last read that returned bytes.
\<close>

definition read_polls_ok :: "'w mb_backend_t \<Rightarrow> int \<Rightarrow> int \<Rightarrow> int \<Rightarrow> int \<Rightarrow> poll_log \<Rightarrow> bool" where
  "read_polls_ok b bufsize t0 t1 r tr =
     (tr \<noteq> [] \<and>
      (\<forall>x \<in> set (butlast tr). 0 \<le> fst x) \<and>
      (r = - 1 \<longleftrightarrow> fst (last tr) < 0) \<and>
      (r \<noteq> - 1 \<longrightarrow>
         r = sum_list (map fst tr) \<and> 0 \<le> r \<and> r \<le> bufsize \<and>
         (r = 0 \<longrightarrow> (\<forall>x \<in> set tr. fst x = 0) \<and> t1 - t0 > ack_tmo_ms b) \<and>
         (r > 0 \<longrightarrow> r = bufsize \<or> t1 - last_progress t0 tr > byte_tmo_ms b)))"

section \<open>What closing leaves\<close>

text \<open>
  What \<open>modbus_backend_close\<close>, called on the back end \<open>b\<close> in the world \<open>wr\<close>, leaves as back
  end \<open>b1\<close> and world \<open>w1\<close>. With a null handle, or without an operations table or a close
  operation, nothing is called: back end and world are as they were. Otherwise the close
  operation is called on the handle in the world \<open>wr\<close> and leaves the world; the handle
  becomes null when it returned 0, and the back end is as it was when it did not.
\<close>

definition closed_by :: "'w mb_backend_t \<Rightarrow> 'w \<Rightarrow> 'w mb_backend_t \<Rightarrow> 'w \<Rightarrow> bool" where
  "closed_by b wr b1 w1 =
     (if hinst b = 0 then b1 = b \<and> w1 = wr
      else (case ops b of
              None \<Rightarrow> b1 = b \<and> w1 = wr
            | Some t \<Rightarrow>
                (case ops_close t of
                   None \<Rightarrow> b1 = b \<and> w1 = wr
                 | Some f \<Rightarrow>
                     w1 = snd (f (hinst b) wr) \<and>
                     (if fst (f (hinst b) wr) = 0 then b1 = b\<lparr>hinst := 0\<rparr> else b1 = b))))"

section \<open>Properties of the PDU codec\<close>


lemmas MODBUS_FC_defs =
  MODBUS_FC_READ_COILS_def MODBUS_FC_READ_DISCRETE_INPUTS_def
  MODBUS_FC_READ_HOLDING_REGISTERS_def MODBUS_FC_READ_INPUT_REGISTERS_def
  MODBUS_FC_WRITE_SINGLE_COIL_def MODBUS_FC_WRITE_SINGLE_REGISTER_def
  MODBUS_FC_READ_EXCEPTION_STATUS_def MODBUS_FC_WRITE_MULTIPLE_COILS_def
  MODBUS_FC_WRITE_MULTIPLE_REGISTERS_def MODBUS_FC_REPORT_SLAVE_ID_def
  MODBUS_FC_MASK_WRITE_REGISTER_def MODBUS_FC_WRITE_AND_READ_REGISTERS_def

lemmas pdu_parse_defs =
  modbus_pdu_except_parse_def modbus_pdu_rd_req_parse_def modbus_pdu_rd_rsp_parse_def
  modbus_pdu_wr_single_parse_def modbus_pdu_wr_req_parse_def modbus_pdu_wr_rsp_parse_def
  modbus_pdu_mask_wr_parse_def modbus_pdu_wr_rd_req_parse_def

lemma u8_get_Cons [simp]: "modbus_cvt_u8_get (v # rest) = Some v"
  by (simp add: modbus_cvt_u8_get_def)

lemma u16_roundtrip:
  "push_bit 8 (ucast (ucast (drop_bit 8 v :: u16) :: u8) :: u16) + ucast (ucast v :: u8) = v"
proof -
  have "push_bit 8 (ucast (ucast (drop_bit 8 v :: u16) :: u8) :: u16) AND ucast (ucast v :: u8) = 0"
    by (rule bit_eqI) (auto simp add: bit_simps)
  then have "push_bit 8 (ucast (ucast (drop_bit 8 v :: u16) :: u8) :: u16) + ucast (ucast v :: u8)
      = push_bit 8 (ucast (ucast (drop_bit 8 v :: u16) :: u8) :: u16) OR ucast (ucast v :: u8)"
    by (rule disjunctive_add_eq_or)
  also have "\<dots> = v"
    by (rule bit_eqI) (auto simp add: bit_simps)
  finally show ?thesis .
qed

lemma u16_get_put [simp]: "modbus_cvt_u16_get (modbus_cvt_u16_put v @ rest) = Some v"
  by (simp add: modbus_cvt_u16_get_def modbus_cvt_u16_put_def u16_roundtrip)

lemma length_u16_put [simp]: "length (modbus_cvt_u16_put v) = 2"
  by (simp add: modbus_cvt_u16_put_def)

lemma uint_u8_lt_1 [simp]: "uint (x :: u8) < 1 \<longleftrightarrow> x = 0"
  by (metis uint_0_iff uint_ge_0 zle_diff1_eq diff_self order_antisym_conv zero_less_one)

text \<open>
  C6. In the request direction, \<open>modbus_pdu_parse\<close> returns \<open>-1\<close> for every buffer whose
  first byte is none of the ten supported function codes, and returns \<open>0\<close> when the function
  code is supported and the length is below the minimum of its shape: 5 for the reads and
  the single writes, 7 for write-multiple and mask-write, 11 for read-write. In both
  cases the PDU structure is left as it was.
\<close>

theorem req_parse_error_returns:
  "(fc \<notin> {0x01, 0x02, 0x03, 0x04, 0x05, 0x06, 0x0F, 0x10, 0x16, 0x17} \<longrightarrow>
      modbus_pdu_parse (fc # rest) len pdu0 MB_PDU_TYPE_REQ = Some (- 1, pdu0)) \<and>
   (fc \<in> {0x01, 0x02, 0x03, 0x04, 0x05, 0x06} \<and> len < 5 \<longrightarrow>
      modbus_pdu_parse (fc # rest) len pdu0 MB_PDU_TYPE_REQ = Some (0, pdu0)) \<and>
   (fc \<in> {0x0F, 0x10, 0x16} \<and> len < 7 \<longrightarrow>
      modbus_pdu_parse (fc # rest) len pdu0 MB_PDU_TYPE_REQ = Some (0, pdu0)) \<and>
   (fc = 0x17 \<and> len < 11 \<longrightarrow>
      modbus_pdu_parse (fc # rest) len pdu0 MB_PDU_TYPE_REQ = Some (0, pdu0))"
  by (auto simp add: modbus_pdu_parse_def modbus_pdu_req_parse_def MODBUS_FC_defs pdu_parse_defs)

theorem req_parse_error_returns_witness:
  "modbus_pdu_parse [0x2B, 0x0E] 2 (Except 0 0) MB_PDU_TYPE_REQ = Some (- 1, Except 0 0) \<and>
   modbus_pdu_parse [0x03, 0x00, 0x6B, 0x00] 4 (Except 0 0) MB_PDU_TYPE_REQ = Some (0, Except 0 0) \<and>
   modbus_pdu_parse [0x10, 0x00, 0x01, 0x00, 0x01, 0x02] 6 (Except 0 0) MB_PDU_TYPE_REQ
     = Some (0, Except 0 0) \<and>
   modbus_pdu_parse [0x17, 0, 1, 0, 1, 0, 2, 0, 1, 2] 10 (Except 0 0) MB_PDU_TYPE_REQ
     = Some (0, Except 0 0)"
  using req_parse_error_returns [of "0x2B" "[0x0E]" 2 "Except 0 0"]
    req_parse_error_returns [of "0x03" "[0x00, 0x6B, 0x00]" 4 "Except 0 0"]
    req_parse_error_returns [of "0x10" "[0x00, 0x01, 0x00, 0x01, 0x02]" 6 "Except 0 0"]
    req_parse_error_returns [of "0x17" "[0, 1, 0, 1, 0, 2, 0, 1, 2]" 10 "Except 0 0"]
  by simp

text \<open>
  C2. A response-direction parse of a read-response shaped PDU is to return \<open>0\<close> when the
  length is at least 3 and below 2 + byte-count. \<open>modbus_pdu_rd_rsp_parse\<close> checks the
  length against 3 only: for the three bytes \<open>03 06 AE\<close>, which announce six payload bytes
  and carry one, it returns \<open>8\<close> and stores a read-response whose payload pointer runs
  past the length given.
\<close>

theorem rd_rsp_parse_short_payload:
  "modbus_pdu_parse [0x03, 0x06, 0xAE] 3 pdu0 MB_PDU_TYPE_RSP = Some (8, Rd_rsp 0x03 0x06 [0xAE])"
  by (simp add: modbus_pdu_parse_def modbus_pdu_rsp_parse_def MODBUS_FC_defs
      MODBUS_FC_EXCEPT_CHK_def modbus_pdu_rd_rsp_parse_def)

lemma req_roundtrip:
  assumes "valid_pdu MB_PDU_TYPE_REQ p"
  shows "\<exists>bs. modbus_pdu_req_make p = Some bs \<and> 1 \<le> length bs \<and>
           modbus_pdu_req_parse (bs @ rest) (int (length bs)) pdu0 = Some (int (length bs), p)"
  using assms
  by (cases p)
    (auto simp add: modbus_cvt_u8_put_def modbus_pdu_req_make_def modbus_pdu_req_parse_def MODBUS_FC_defs
      modbus_pdu_rd_req_parse_def modbus_pdu_wr_single_parse_def modbus_pdu_wr_req_parse_def
      modbus_pdu_mask_wr_parse_def modbus_pdu_wr_rd_req_parse_def)

lemma rsp_roundtrip:
  assumes "valid_pdu MB_PDU_TYPE_RSP p"
  shows "\<exists>bs. modbus_pdu_rsp_make p = Some bs \<and> 1 \<le> length bs \<and>
           modbus_pdu_rsp_parse (bs @ rest) (int (length bs)) pdu0 = Some (int (length bs), p)"
  using assms
  by (cases p)
    (auto simp add: modbus_cvt_u8_put_def modbus_pdu_rsp_make_def modbus_pdu_rsp_parse_def MODBUS_FC_defs
      MODBUS_FC_EXCEPT_CHK_def
      modbus_pdu_rd_rsp_parse_def modbus_pdu_wr_single_parse_def modbus_pdu_wr_rsp_parse_def
      modbus_pdu_mask_wr_parse_def modbus_pdu_except_parse_def)

lemma pdu_roundtrip_rest:
  assumes "valid_pdu ty p"
  shows "\<exists>bs. modbus_pdu_make p ty = Some bs \<and> 1 \<le> length bs \<and>
           modbus_pdu_parse (bs @ rest) (int (length bs)) pdu0 ty = Some (int (length bs), p)"
proof (cases ty)
  case MB_PDU_TYPE_REQ
  then show ?thesis
    using assms req_roundtrip [of p rest pdu0]
    by (simp add: modbus_pdu_make_def modbus_pdu_parse_def)
next
  case MB_PDU_TYPE_RSP
  then show ?thesis
    using assms rsp_roundtrip [of p rest pdu0]
    by (simp add: modbus_pdu_make_def modbus_pdu_parse_def)
next
  case MB_PDU_TYPE_OTHER
  then show ?thesis
    using assms by simp
qed

text \<open>
  C4. For every valid PDU value \<open>p\<close> and its direction, \<open>modbus_pdu_make\<close> produces bytes
  on which \<open>modbus_pdu_parse\<close>, given their number as length, returns that number and
  stores a PDU equal to \<open>p\<close>, payload bytes included, whatever the PDU structure held
  before.
\<close>

theorem pdu_make_parse_roundtrip:
  assumes "valid_pdu ty p"
  shows "\<exists>bs. modbus_pdu_make p ty = Some bs \<and>
           modbus_pdu_parse bs (int (length bs)) pdu0 ty = Some (int (length bs), p)"
  using pdu_roundtrip_rest [OF assms, of "[]" pdu0] by auto

theorem pdu_make_parse_roundtrip_witness:
  "valid_pdu MB_PDU_TYPE_RSP (Rd_rsp 0x03 0x06 [0xAE, 0x41, 0x56, 0x52, 0x43, 0x40]) \<and>
   modbus_pdu_make (Rd_rsp 0x03 0x06 [0xAE, 0x41, 0x56, 0x52, 0x43, 0x40]) MB_PDU_TYPE_RSP
     = Some [0x03, 0x06, 0xAE, 0x41, 0x56, 0x52, 0x43, 0x40] \<and>
   modbus_pdu_parse [0x03, 0x06, 0xAE, 0x41, 0x56, 0x52, 0x43, 0x40] 8 (Except 0 0) MB_PDU_TYPE_RSP
     = Some (8, Rd_rsp 0x03 0x06 [0xAE, 0x41, 0x56, 0x52, 0x43, 0x40])"
proof -
  have v: "valid_pdu MB_PDU_TYPE_RSP (Rd_rsp 0x03 0x06 [0xAE, 0x41, 0x56, 0x52, 0x43, 0x40])"
    by simp
  have m: "modbus_pdu_make (Rd_rsp 0x03 0x06 [0xAE, 0x41, 0x56, 0x52, 0x43, 0x40]) MB_PDU_TYPE_RSP
     = Some [0x03, 0x06, 0xAE, 0x41, 0x56, 0x52, 0x43, 0x40]"
    by (simp add: modbus_pdu_make_def modbus_pdu_rsp_make_def MODBUS_FC_defs MODBUS_FC_EXCEPT_CHK_def
        modbus_cvt_u8_put_def)
  show ?thesis
    using pdu_make_parse_roundtrip [OF v, of "Except 0 0"] v m by simp
qed


section \<open>Properties of the CRC and of the RTU frame wrapper\<close>

lemma crc16_steps_low_zero:
  "(\<And>i. i < k \<Longrightarrow> \<not> bit y i) \<Longrightarrow> (crc16_bit_step ^^ k) y = drop_bit k y"
proof (induction k)
  case 0
  then show ?case by simp
next
  case (Suc k)
  have "(crc16_bit_step ^^ k) y = drop_bit k y"
    using Suc by simp
  moreover have "\<not> bit (drop_bit k y) 0"
    using Suc.prems [of k] by (simp add: bit_simps)
  ultimately have "crc16_bit_step ((crc16_bit_step ^^ k) y) = drop_bit 1 (drop_bit k y)"
    by (simp add: crc16_bit_step_def)
  then show ?case
    by simp
qed

lemma crc16_byte_low: "crc16_byte c (ucast c) = drop_bit 8 c"
proof -
  have "(crc16_bit_step ^^ 8) (c XOR ucast (ucast c :: u8))
      = drop_bit 8 (c XOR ucast (ucast c :: u8))"
    by (rule crc16_steps_low_zero) (simp add: bit_simps)
  also have "\<dots> = drop_bit 8 c"
    by (rule bit_eqI) (auto simp add: bit_simps)
  finally show ?thesis by (simp add: crc16_byte_def)
qed

lemma crc16_byte_high: "crc16_byte (drop_bit 8 c) (ucast (drop_bit 8 c)) = 0"
proof -
  have "drop_bit 8 c XOR ucast (ucast (drop_bit 8 c) :: u8) = 0"
    by (rule bit_eqI) (auto simp add: bit_simps dest: bit_imp_le_length)
  moreover have "(crc16_bit_step ^^ 8) (0 :: u16) = drop_bit 8 0"
    by (rule crc16_steps_low_zero) simp
  ultimately show ?thesis by (simp add: crc16_byte_def)
qed

lemma crc_residue:
  "foldl crc16_byte s (xs @ [ucast (foldl crc16_byte s xs),
      ucast (drop_bit 8 (foldl crc16_byte s xs))]) = 0"
  by (simp add: crc16_byte_low crc16_byte_high)

lemma crc_cal_residue:
  assumes "modbus_crc_cal xs (int (length xs)) = Some crc"
  shows "modbus_crc_cal (xs @ [ucast crc, ucast (drop_bit 8 crc)]) (int (length xs) + 2) = Some 0"
  using assms crc_residue [of "0xFFFF" xs]
  by (simp add: modbus_crc_cal_def nat_add_distrib)

text \<open>
  C3. For every slave address and every valid PDU value, \<open>modbus_rtu_frame_make\<close> produces
  a frame of the PDU bytes plus three, the CRC over the whole frame is \<open>0\<close>, and
  \<open>modbus_rtu_frame_parse\<close> in the same direction returns the length of the PDU that
  \<open>modbus_pdu_make\<close> produced and stores the address and the PDU.
\<close>

theorem rtu_make_parse_roundtrip:
  assumes "valid_pdu ty p"
  shows "\<exists>pb bs. modbus_pdu_make p ty = Some pb \<and>
           modbus_rtu_frame_make \<lparr>saddr = a, pdu = p\<rparr> ty = Some bs \<and>
           length bs = length pb + 3 \<and>
           modbus_crc_cal bs (int (length bs)) = Some 0 \<and>
           modbus_rtu_frame_parse bs (int (length bs)) frm ty
             = Some (int (length pb), frm\<lparr>saddr := a, pdu := p\<rparr>)"
proof -
  obtain pb where mk: "modbus_pdu_make p ty = Some pb" and len: "1 \<le> length pb"
    using pdu_roundtrip_rest [OF assms, of "[]" p] by auto
  define wr where "wr = a # pb"
  define c where "c = foldl crc16_byte 0xFFFF wr"
  define bs where "bs = wr @ [ucast c, ucast (drop_bit 8 c)]"
  have cw: "modbus_crc_cal wr (int (length wr)) = Some c"
    by (simp add: modbus_crc_cal_def c_def)
  have fm: "modbus_rtu_frame_make \<lparr>saddr = a, pdu = p\<rparr> ty = Some bs"
    using mk cw by (simp add: modbus_rtu_frame_make_def bs_def wr_def modbus_cvt_u8_put_def)
  have lbs: "length bs = length pb + 3"
    by (simp add: bs_def wr_def)
  have fl: "int (length bs) = int (length pb) + 3"
    using lbs by simp
  have crc0: "modbus_crc_cal bs (int (length pb) + 3) = Some 0"
    using crc_cal_residue [OF cw] by (simp add: bs_def wr_def add.commute)
  have pp: "modbus_pdu_parse (drop 1 bs) (int (length pb)) (pdu (frm\<lparr>saddr := a\<rparr>)) ty
      = Some (int (length pb), p)"
    using pdu_roundtrip_rest [OF assms, of "[ucast c, ucast (drop_bit 8 c)]"
        "pdu (frm\<lparr>saddr := a\<rparr>)"] mk
    by (auto simp add: bs_def wr_def)
  have ne: "pb \<noteq> []"
    using len by auto
  have hd: "modbus_cvt_u8_get bs = Some a"
    by (simp add: bs_def wr_def)
  have "modbus_rtu_frame_parse bs (int (length pb) + 3) frm ty
      = Some (int (length pb), frm\<lparr>saddr := a, pdu := p\<rparr>)"
    using pp crc0 ne hd
    by (simp add: modbus_rtu_frame_parse_def MB_RTU_FRM_MIN_def MB_RTU_SADDR_SIZE_def
        MB_RTU_CRC_SIZE_def MB_PDU_SIZE_MIN_def)
  then have "modbus_rtu_frame_parse bs (int (length bs)) frm ty
      = Some (int (length pb), frm\<lparr>saddr := a, pdu := p\<rparr>)"
    by (simp only: fl)
  moreover have "modbus_crc_cal bs (int (length bs)) = Some 0"
    using crc0 by (simp only: fl)
  ultimately show ?thesis
    using mk fm lbs by blast
qed

theorem rtu_make_parse_roundtrip_witness:
  "valid_pdu MB_PDU_TYPE_REQ (Rd_req 0x03 0x006B 0x0003) \<and>
   modbus_pdu_make (Rd_req 0x03 0x006B 0x0003) MB_PDU_TYPE_REQ
     = Some [0x03, 0x00, 0x6B, 0x00, 0x03] \<and>
   (\<exists>bs. modbus_rtu_frame_make \<lparr>saddr = 0x11, pdu = Rd_req 0x03 0x006B 0x0003\<rparr> MB_PDU_TYPE_REQ
        = Some bs \<and> length bs = 8 \<and>
      modbus_crc_cal bs 8 = Some 0 \<and>
      modbus_rtu_frame_parse bs 8 \<lparr>saddr = 0, pdu = Except 0 0\<rparr> MB_PDU_TYPE_REQ
        = Some (5, \<lparr>saddr = 0x11, pdu = Rd_req 0x03 0x006B 0x0003\<rparr>))"
proof -
  have v: "valid_pdu MB_PDU_TYPE_REQ (Rd_req 0x03 0x006B 0x0003)"
    by simp
  have m: "modbus_pdu_make (Rd_req 0x03 0x006B 0x0003) MB_PDU_TYPE_REQ
     = Some [0x03, 0x00, 0x6B, 0x00, 0x03]"
    by (simp add: modbus_pdu_make_def modbus_pdu_req_make_def MODBUS_FC_defs
        modbus_cvt_u8_put_def modbus_cvt_u16_put_def)
  show ?thesis
    using rtu_make_parse_roundtrip [OF v, of "0x11" "\<lparr>saddr = 0, pdu = Except 0 0\<rparr>"] v m
    by auto
qed

text \<open>
  C8. \<open>modbus_rtu_frame_parse\<close> returns \<open>0\<close> for every input of length 3 or less and leaves
  the frame structure as it was. The minimum frame length is 4: an input of length 4
  passes the length check and reaches the PDU parser, which for a request with the
  unsupported function code \<open>0x2B\<close> makes the result \<open>-1\<close>, after the address was stored.
\<close>

theorem rtu_frame_min_length:
  "(len \<le> 3 \<longrightarrow> modbus_rtu_frame_parse buf len frm type = Some (0, frm)) \<and>
   MB_RTU_FRM_MIN = 4 \<and>
   modbus_rtu_frame_parse [a, 0x2B, c0, c1] 4 frm MB_PDU_TYPE_REQ = Some (- 1, frm\<lparr>saddr := a\<rparr>)"
  by (simp add: modbus_rtu_frame_parse_def MB_RTU_FRM_MIN_def MB_RTU_SADDR_SIZE_def
      MB_RTU_CRC_SIZE_def MB_PDU_SIZE_MIN_def modbus_pdu_parse_def modbus_pdu_req_parse_def
      MODBUS_FC_defs)

theorem rtu_frame_min_length_witness:
  "modbus_rtu_frame_parse [0x11, 0x03, 0x00] 3 \<lparr>saddr = 0, pdu = Except 0 0\<rparr> MB_PDU_TYPE_RSP
     = Some (0, \<lparr>saddr = 0, pdu = Except 0 0\<rparr>)"
  using rtu_frame_min_length
    [of 3 "[0x11, 0x03, 0x00]" "\<lparr>saddr = 0, pdu = Except 0 0\<rparr>" MB_PDU_TYPE_RSP]
  by simp

section \<open>Properties of the transport back end\<close>

text \<open>
  C9. When the handle of a back end is not null, \<open>modbus_backend_open\<close> returns \<open>0\<close> at
  once: the back end and the world are as before, whatever the open operation is, so the
  operation was not called. An adopted-socket back end created from a nonzero descriptor
  has its handle set to the descriptor at creation and a null open operation, and
  opening it returns \<open>0\<close>.
\<close>

theorem backend_open_when_open:
  "(hinst b \<noteq> 0 \<longrightarrow> modbus_backend_open (Some b) w = (0, Some b, w)) \<and>
   (fd sock \<noteq> 0 \<longrightarrow>
      (\<exists>b1 t. modbus_backend_create_sock True pl sock = Some b1 \<and> hinst b1 = fd sock \<and>
         ops b1 = Some t \<and> ops_open t = None \<and>
         modbus_backend_open (Some b1) w = (0, Some b1, w)))"
  by (simp add: modbus_backend_open_def modbus_backend_create_sock_def mb_port_sock_ops_def)

theorem backend_open_when_open_witness:
  "modbus_backend_open (Some (stub_backend 0 0)) 0 = (0, Some (stub_backend 0 0), 0) \<and>
   (\<exists>b1. modbus_backend_create_sock True (stub_port 0 0) \<lparr>fd = 5\<rparr> = Some b1 \<and>
      hinst b1 = 5 \<and> modbus_backend_open (Some b1) 0 = (0, Some b1, 0))"
  using backend_open_when_open [of "stub_backend 0 0" 0 "\<lparr>fd = 5\<rparr>" "stub_port 0 0"]
  by (auto simp add: stub_backend_def)

text \<open>
  C1. For an adopted-socket back end whose handle is null, \<open>modbus_backend_open\<close> is to
  treat the null open operation as a no-op and return \<open>0\<close>. The code returns \<open>-1\<close>: for
  every back end that carries the adopted-socket operations table and a null handle,
  and so for the back end created from the descriptor \<open>0\<close>.
\<close>

theorem sock_backend_open_null_handle:
  "modbus_backend_open (Some (b\<lparr>ops := Some (mb_port_sock_ops pl), hinst := 0\<rparr>)) w
     = (- 1, Some (b\<lparr>ops := Some (mb_port_sock_ops pl), hinst := 0\<rparr>), w) \<and>
   ops_open (mb_port_sock_ops pl) = None \<and>
   map_option hinst (modbus_backend_create_sock True pl \<lparr>fd = 0\<rparr>) = Some 0 \<and>
   fst (modbus_backend_open (modbus_backend_create_sock True pl \<lparr>fd = 0\<rparr>) w) = - 1"
  by (simp add: modbus_backend_open_def modbus_backend_create_sock_def mb_port_sock_ops_def)

text \<open>
  C10. \<open>modbus_backend_close\<close> is atomic on failure. With a null handle it returns \<open>0\<close> and
  calls nothing (back end and world as before). When the close operation returns a
  nonzero value it returns \<open>-1\<close> and the back end, its handle included, is as before. The
  handle of an open back end becomes null only when the close operation was called and
  returned \<open>0\<close>, and then the call returns \<open>0\<close>.
\<close>

theorem backend_close_atomic:
  "(hinst b = 0 \<longrightarrow> modbus_backend_close (Some b) w = (0, Some b, w)) \<and>
   (hinst b \<noteq> 0 \<and> ops b = Some t \<and> ops_close t = Some f \<and> fst (f (hinst b) w) \<noteq> 0 \<longrightarrow>
      modbus_backend_close (Some b) w = (- 1, Some b, snd (f (hinst b) w))) \<and>
   (hinst b \<noteq> 0 \<and> modbus_backend_close (Some b) w = (r, Some b1, w1) \<and> hinst b1 = 0 \<longrightarrow>
      r = 0 \<and> b1 = b\<lparr>hinst := 0\<rparr> \<and>
      (\<exists>t f. ops b = Some t \<and> ops_close t = Some f \<and> f (hinst b) w = (0, w1)))"
  by (auto simp add: modbus_backend_close_def split: option.splits prod.splits if_splits)

theorem backend_close_atomic_witness:
  "modbus_backend_close (Some ((stub_backend 0 0)\<lparr>hinst := 0\<rparr>)) 0
     = (0, Some ((stub_backend 0 0)\<lparr>hinst := 0\<rparr>), 0) \<and>
   modbus_backend_close (Some (stub_backend 0 (- 1))) 0 = (- 1, Some (stub_backend 0 (- 1)), 0) \<and>
   modbus_backend_close (Some (stub_backend 0 0)) 0 = (0, Some ((stub_backend 0 0)\<lparr>hinst := 0\<rparr>), 0) \<and>
   (\<exists>t f. ops (stub_backend 0 0) = Some t \<and> ops_close t = Some f \<and> f 5 0 = (0, 0))"
proof -
  have c: "modbus_backend_close (Some (stub_backend 0 0)) 0
      = (0, Some ((stub_backend 0 0)\<lparr>hinst := 0\<rparr>), 0)"
    by (simp add: modbus_backend_close_def stub_backend_def mb_port_sock_ops_def stub_port_def)
  show ?thesis
    using backend_close_atomic [of "(stub_backend 0 0)\<lparr>hinst := 0\<rparr>" 0]
      backend_close_atomic [of "stub_backend 0 (- 1)" 0 "mb_port_sock_ops (stub_port 0 (- 1))"
        "\<lambda>h w. (- 1, w)"]
      backend_close_atomic [of "stub_backend 0 0" 0 _ _ 0 "(stub_backend 0 0)\<lparr>hinst := 0\<rparr>" 0] c
    by (simp add: stub_backend_def mb_port_sock_ops_def stub_port_def)
qed

section \<open>Properties of the framing read and of the instance\<close>


lemmas stub_defs = stub_inst_def stub_backend_def stub_port_def mb_port_sock_ops_def
  MB_BKD_ACK_TMO_MS_DEF_def MB_BKD_BYTE_TMO_MS_DEF_def

lemma read_loop_mono:
  "read_loop k pl rd b bf bufsize pos told w = Some r \<Longrightarrow>
   read_loop (k + j) pl rd b bf bufsize pos told w = Some r"
proof (induction k arbitrary: bf pos told w)
  case 0
  then show ?case by simp
next
  case (Suc k)
  then show ?case
    by (auto simp add: Let_def split: prod.splits if_splits)
qed

lemma int_of_long_long_id:
  "- 2147483648 \<le> x \<Longrightarrow> x < 2147483648 \<Longrightarrow> int_of_long_long x = x"
  by (simp add: int_of_long_long_def)

lemma read_loop_terminates:
  assumes adv: "clock_advances pl rd J" and rng: "timeouts_in_range b J"
  shows "told \<le> modbus_port_get_ms pl w \<Longrightarrow>
    modbus_port_get_ms pl w - told \<le> max (max (ack_tmo_ms b) (byte_tmo_ms b)) 0 + J \<Longrightarrow>
    \<exists>k. read_loop k pl rd b bf bufsize pos told w \<noteq> None"
proof -
  define T where "T = max (max (ack_tmo_ms b) (byte_tmo_ms b)) 0"
  define clock where "clock = modbus_port_get_ms pl"
  have rd_lo: "clock w \<le> clock (snd (rd h cap w))"
    and rd_hi: "clock (snd (rd h cap w)) \<le> clock w + J" for h cap w
    using adv by (simp_all add: clock_advances_def clock_def)
  have dl_lo: "clock w < clock (modbus_port_delay_ms pl 2 w)"
    and dl_hi: "clock (modbus_port_delay_ms pl 2 w) \<le> clock w + J" for w
    using adv by (simp_all add: clock_advances_def clock_def)
  have J: "0 < J"
    using dl_lo [of w] dl_hi [of w] by simp
  have T: "T + 2 * J < 2147483648" "0 \<le> T" "ack_tmo_ms b \<le> T" "byte_tmo_ms b \<le> T"
    using rng by (simp_all add: timeouts_in_range_def T_def)
  have "told \<le> clock w \<Longrightarrow> clock w - told \<le> T + J \<Longrightarrow>
    \<exists>k. read_loop k pl rd b bf bufsize pos told w \<noteq> None"
  proof (induction "nat (bufsize - pos)" arbitrary: pos told w bf rule: less_induct)
    case less
    note outer = less.hyps
    from less.prems show ?case
    proof (induction "nat (T + J + 1 - (clock w - told))" arbitrary: told w bf rule: less_induct)
      case less
      note inner = less.hyps
      note inv = less.prems
      show ?case
      proof (cases "pos < bufsize")
        case False
        then have "read_loop (Suc 0) pl rd b bf bufsize pos told w
            = Some (pos, Exit_buffer_full, bf, w)"
          by simp
        then show ?thesis
          by (metis option.distinct(1))
      next
        case True
        obtain len data w2 where rdr: "rd (hinst b) (bufsize - pos) w = ((len, data), w2)"
          by (metis prod.exhaust)
        have w2: "clock w \<le> clock w2" "clock w2 \<le> clock w + J"
          using rd_lo [of w "hinst b" "bufsize - pos"] rd_hi [of "hinst b" "bufsize - pos" w] rdr
          by simp_all
        consider (err) "len < 0" | (data) "0 < len" | (idle) "len = 0"
          by linarith
        then show ?thesis
        proof cases
          case err
          with True rdr have "read_loop (Suc 0) pl rd b bf bufsize pos told w
              = Some (- 1, Exit_read_error, bf, w2)"
            by simp
          then show ?thesis
            by (metis option.distinct(1))
        next
          case data
          with True have "nat (bufsize - (pos + len)) < nat (bufsize - pos)"
            by simp
          moreover have "clock w2 \<le> clock w2" "clock w2 - clock w2 \<le> T + J"
            using T J by simp_all
          ultimately obtain k where
            "read_loop k pl rd b (buf_store bf pos len data) bufsize (pos + len) (clock w2) w2
               \<noteq> None"
            using outer by blast
          with True rdr data have "read_loop (Suc k) pl rd b bf bufsize pos told w \<noteq> None"
            by (simp add: clock_def)
          then show ?thesis by blast
        next
          case idle
          define lim where "lim = (if pos \<noteq> 0 then byte_tmo_ms b else ack_tmo_ms b)"
          have limT: "lim \<le> T"
            using T by (simp add: lim_def)
          have "- 2147483648 \<le> clock w2 - told" "clock w2 - told < 2147483648"
            using inv w2 T J by simp_all
          then have cast: "int_of_long_long (modbus_port_get_ms pl w2 - told) = clock w2 - told"
            by (simp add: int_of_long_long_id clock_def)
          show ?thesis
          proof (cases "clock w2 - told > lim")
            case True
            with \<open>pos < bufsize\<close> rdr idle cast
            have "read_loop (Suc 0) pl rd b bf bufsize pos told w \<noteq> None"
              by (auto simp add: lim_def Let_def split: if_splits)
            then show ?thesis by blast
          next
            case False
            have "nat (T + J + 1 - (clock (modbus_port_delay_ms pl 2 w2) - told))
                < nat (T + J + 1 - (clock w - told))"
              using False limT w2 dl_lo [of w2] inv by simp
            moreover have "told \<le> clock (modbus_port_delay_ms pl 2 w2)"
              using inv w2 dl_lo [of w2] by simp
            moreover have "clock (modbus_port_delay_ms pl 2 w2) - told \<le> T + J"
              using False limT dl_hi [of w2] by simp
            ultimately obtain k where
              "read_loop k pl rd b bf bufsize pos told (modbus_port_delay_ms pl 2 w2) \<noteq> None"
              using inner by blast
            with \<open>pos < bufsize\<close> rdr idle False cast
            have "read_loop (Suc k) pl rd b bf bufsize pos told w \<noteq> None"
              by (auto simp add: lim_def Let_def split: if_splits)
            then show ?thesis by blast
          qed
        qed
      qed
    qed
  qed
  then show "told \<le> modbus_port_get_ms pl w \<Longrightarrow>
    modbus_port_get_ms pl w - told \<le> max (max (ack_tmo_ms b) (byte_tmo_ms b)) 0 + J \<Longrightarrow>
    \<exists>k. read_loop k pl rd b bf bufsize pos told w \<noteq> None"
    by (simp add: T_def clock_def)
qed

lemma backend_read_early:
  assumes "bo = None \<or> bf = None \<or> bufsize \<le> 0 \<or>
      (\<exists>b. bo = Some b \<and> (hinst b = 0 \<or> ops b = None \<or>
         (\<exists>t. ops b = Some t \<and> ops_read t = None)))"
  shows "modbus_backend_read fuel pl bo bf bufsize w = Some (- 1, None, bf, w)"
  using assms
  by (auto simp add: modbus_backend_read_def split: option.splits)

lemma backend_read_loop:
  assumes "0 < bufsize" "hinst b \<noteq> 0" "ops b = Some t" "ops_read t = Some rd"
  shows "modbus_backend_read k pl (Some b) (Some buf) bufsize w =
     map_option (\<lambda>(r, e, bf1, w1). (r, Some e, Some bf1, w1))
       (read_loop k pl rd b buf bufsize 0 (modbus_port_get_ms pl w) w)"
  using assms by (simp add: modbus_backend_read_def)

lemma int_of_long_long_le:
  "0 \<le> x \<Longrightarrow> int_of_long_long x \<le> x"
proof -
  assume "0 \<le> x"
  then have "(x + 2147483648) mod 4294967296 \<le> x + 2147483648"
    by (intro zmod_le_nonneg_dividend) simp
  then show ?thesis
    by (simp add: int_of_long_long_def)
qed

lemma logged_backend_sel [simp]:
  "hinst (logged_backend pl b) = hinst b"
  "ack_tmo_ms (logged_backend pl b) = ack_tmo_ms b"
  "byte_tmo_ms (logged_backend pl b) = byte_tmo_ms b"
  "ops (logged_backend pl b) = map_option (logged_ops pl) (ops b)"
  by (simp_all add: logged_backend_def)

lemma logged_port_sel [simp]:
  "modbus_port_get_ms (logged_port pl) wl = modbus_port_get_ms pl (fst wl)"
  "modbus_port_delay_ms (logged_port pl) d wl = (modbus_port_delay_ms pl d (fst wl), snd wl)"
  by (simp_all add: logged_port_def)

lemma logged_ops_read [simp]:
  "ops_read (logged_ops pl t) = map_option (logged_read pl) (ops_read t)"
  by (simp add: logged_ops_def)

lemma last_progress_Cons:
  "last_progress t0 (x # tr) = last_progress (if 0 < fst x then snd x else t0) tr"
  by (simp add: last_progress_def)

lemma last_progress_Nil:
  "last_progress t0 [] = t0"
  by (simp add: last_progress_def)

text \<open>
  The run of the loop over the logging driver is the run over the driver itself with the
  record of its reads beside it, and the result of the loop is read off that record.
\<close>

lemma read_loop_polls:
  assumes cap: "read_within_capacity rd" and adv: "clock_advances pl rd J"
  shows "0 \<le> pos \<Longrightarrow> pos \<le> bufsize \<Longrightarrow> told \<le> modbus_port_get_ms pl w \<Longrightarrow>
    read_loop k pl rd b bf bufsize pos told w = Some (r, e, bf1, w1) \<Longrightarrow>
    \<exists>tr. read_loop k (logged_port pl) (logged_read pl rd) (logged_backend pl b)
            bf bufsize pos told (w, lg) = Some (r, e, bf1, (w1, lg @ tr)) \<and>
       (pos < bufsize \<longrightarrow> tr \<noteq> []) \<and>
       (\<forall>x \<in> set (butlast tr). 0 \<le> fst x) \<and>
       (r = - 1 \<longleftrightarrow> tr \<noteq> [] \<and> fst (last tr) < 0) \<and>
       (r \<noteq> - 1 \<longrightarrow> r = pos + sum_list (map fst tr) \<and> r \<le> bufsize \<and>
          (r < bufsize \<longrightarrow> (if r \<noteq> 0 then byte_tmo_ms b else ack_tmo_ms b)
              < modbus_port_get_ms pl w1 - last_progress told tr))"
proof (induction k arbitrary: bf pos told w lg)
  case 0
  then show ?case by simp
next
  case (Suc k)
  define clock where "clock = modbus_port_get_ms pl"
  have rd_lo: "clock w \<le> clock (snd (rd h c w))" for h c w
    using adv by (simp add: clock_advances_def clock_def)
  have dl_lo: "clock w < clock (modbus_port_delay_ms pl 2 w)" for w
    using adv by (simp add: clock_advances_def clock_def)
  note run = Suc.prems(4)
  have told: "told \<le> clock w"
    using Suc.prems(3) by (simp add: clock_def)
  show ?case
  proof (cases "pos < bufsize")
    case False
    with run Suc.prems(1,2) have "r = pos" "e = Exit_buffer_full" "bf1 = bf" "w1 = w" "pos = bufsize"
      by simp_all
    with False Suc.prems(1) show ?thesis
      by (intro exI [of _ "[]"]) simp
  next
    case True
    obtain len data w2 where rdr: "rd (hinst b) (bufsize - pos) w = ((len, data), w2)"
      by (metis prod.exhaust)
    have "0 < bufsize - pos \<longrightarrow> fst (fst (rd (hinst b) (bufsize - pos) w)) \<le> bufsize - pos"
      using cap unfolding read_within_capacity_def by blast
    with rdr True have lencap: "len \<le> bufsize - pos"
      by simp
    have w2: "clock w \<le> clock w2"
      using rd_lo [of w "hinst b" "bufsize - pos"] rdr by simp
    define x where "x = (len, clock w2)"
    have x: "fst x = len" "snd x = clock w2"
      by (simp_all add: x_def)
    have lrd': "logged_read pl rd (hinst b) (bufsize - pos) (w, lg) = ((len, data), (w2, lg @ [x]))"
      using rdr by (simp add: logged_read_def x_def clock_def)
    consider (err) "len < 0" | (data) "0 < len" | (idle) "len = 0"
      by linarith
    then show ?thesis
    proof cases
      case err
      with run True rdr have res: "r = - 1" "e = Exit_read_error" "bf1 = bf" "w1 = w2"
        by simp_all
      have "read_loop (Suc k) (logged_port pl) (logged_read pl rd) (logged_backend pl b)
            bf bufsize pos told (w, lg) = Some (r, e, bf1, (w1, lg @ [x]))"
        using True err lrd' res by simp
      with err res x show ?thesis
        by (intro exI [of _ "[x]"]) simp
    next
      case data
      with run True rdr
      have rec: "read_loop k pl rd b (buf_store bf pos len data) bufsize (pos + len)
          (modbus_port_get_ms pl w2) w2 = Some (r, e, bf1, w1)"
        by simp
      have b1: "0 \<le> pos + len" and b2: "pos + len \<le> bufsize"
        using data lencap Suc.prems(1) by auto
      have b3: "modbus_port_get_ms pl w2 \<le> modbus_port_get_ms pl w2"
        by simp
      from Suc.IH [OF b1 b2 b3 rec, of "lg @ [x]"] obtain tr where
        lrun: "read_loop k (logged_port pl) (logged_read pl rd) (logged_backend pl b)
            (buf_store bf pos len data) bufsize (pos + len) (modbus_port_get_ms pl w2)
            (w2, lg @ [x]) = Some (r, e, bf1, (w1, (lg @ [x]) @ tr))"
        and f1: "\<forall>y \<in> set (butlast tr). 0 \<le> fst y"
        and f2: "r = - 1 \<longleftrightarrow> tr \<noteq> [] \<and> fst (last tr) < 0"
        and f3: "r \<noteq> - 1 \<longrightarrow> r = pos + len + sum_list (map fst tr) \<and> r \<le> bufsize \<and>
          (r < bufsize \<longrightarrow> (if r \<noteq> 0 then byte_tmo_ms b else ack_tmo_ms b)
              < modbus_port_get_ms pl w1 - last_progress (modbus_port_get_ms pl w2) tr)"
        by blast
      have "read_loop (Suc k) (logged_port pl) (logged_read pl rd) (logged_backend pl b)
            bf bufsize pos told (w, lg) = Some (r, e, bf1, (w1, lg @ (x # tr)))"
        using True data lrd' lrun by simp
      moreover have "\<forall>y \<in> set (butlast (x # tr)). 0 \<le> fst y"
        using f1 data x by simp
      moreover have "r = - 1 \<longleftrightarrow> x # tr \<noteq> [] \<and> fst (last (x # tr)) < 0"
        using f2 data x by simp
      moreover have "r \<noteq> - 1 \<longrightarrow> r = pos + sum_list (map fst (x # tr)) \<and> r \<le> bufsize \<and>
          (r < bufsize \<longrightarrow> (if r \<noteq> 0 then byte_tmo_ms b else ack_tmo_ms b)
              < modbus_port_get_ms pl w1 - last_progress told (x # tr))"
        using f3 data x by (auto simp add: last_progress_Cons clock_def)
      moreover have "pos < bufsize \<longrightarrow> x # tr \<noteq> []"
        by simp
      ultimately show ?thesis
        by blast
    next
      case idle
      define lim where "lim = (if pos \<noteq> 0 then byte_tmo_ms b else ack_tmo_ms b)"
      have nonneg: "0 \<le> clock w2 - told"
        using told w2 by simp
      show ?thesis
      proof (cases "int_of_long_long (clock w2 - told) > lim")
        case True
        with run \<open>pos < bufsize\<close> rdr idle
        have res: "r = pos" "bf1 = bf" "w1 = w2"
          and e: "e = (if pos \<noteq> 0 then Exit_byte_timeout (int_of_long_long (clock w2 - told))
                      else Exit_ack_timeout (int_of_long_long (clock w2 - told)))"
          by (auto simp add: lim_def clock_def Let_def split: if_splits)
        have "read_loop (Suc k) (logged_port pl) (logged_read pl rd) (logged_backend pl b)
            bf bufsize pos told (w, lg) = Some (r, e, bf1, (w1, lg @ [x]))"
          using \<open>pos < bufsize\<close> idle lrd' res e True
          by (auto simp add: lim_def clock_def Let_def)
        moreover have lt: "lim < clock w2 - told"
          using True int_of_long_long_le [OF nonneg] by simp
        have "\<forall>y \<in> set (butlast [x]). 0 \<le> fst y"
          by simp
        moreover have "r = - 1 \<longleftrightarrow> [x] \<noteq> [] \<and> fst (last [x]) < 0"
          using res idle x Suc.prems(1) by simp
        moreover have "r \<noteq> - 1 \<longrightarrow> r = pos + sum_list (map fst [x]) \<and> r \<le> bufsize \<and>
            (r < bufsize \<longrightarrow> (if r \<noteq> 0 then byte_tmo_ms b else ack_tmo_ms b)
                < modbus_port_get_ms pl w1 - last_progress told [x])"
          using res idle x lt Suc.prems(2)
          by (simp add: last_progress_Cons last_progress_Nil lim_def clock_def)
        moreover have "pos < bufsize \<longrightarrow> [x] \<noteq> []"
          by simp
        ultimately show ?thesis
          by blast
      next
        case False
        with run \<open>pos < bufsize\<close> rdr idle
        have rec: "read_loop k pl rd b bf bufsize pos told (modbus_port_delay_ms pl 2 w2)
            = Some (r, e, bf1, w1)"
          by (auto simp add: lim_def clock_def Let_def split: if_splits)
        have b3: "told \<le> modbus_port_get_ms pl (modbus_port_delay_ms pl 2 w2)"
          using told w2 dl_lo [of w2] by (simp add: clock_def)
        from Suc.IH [OF Suc.prems(1) Suc.prems(2) b3 rec, of "lg @ [x]"] obtain tr where
          lrun: "read_loop k (logged_port pl) (logged_read pl rd) (logged_backend pl b)
              bf bufsize pos told (modbus_port_delay_ms pl 2 w2, lg @ [x])
              = Some (r, e, bf1, (w1, (lg @ [x]) @ tr))"
          and f1: "\<forall>y \<in> set (butlast tr). 0 \<le> fst y"
          and f2: "r = - 1 \<longleftrightarrow> tr \<noteq> [] \<and> fst (last tr) < 0"
          and f3: "r \<noteq> - 1 \<longrightarrow> r = pos + sum_list (map fst tr) \<and> r \<le> bufsize \<and>
            (r < bufsize \<longrightarrow> (if r \<noteq> 0 then byte_tmo_ms b else ack_tmo_ms b)
                < modbus_port_get_ms pl w1 - last_progress told tr)"
          and f0: "tr \<noteq> []"
          using \<open>pos < bufsize\<close> by blast
        have "read_loop (Suc k) (logged_port pl) (logged_read pl rd) (logged_backend pl b)
            bf bufsize pos told (w, lg) = Some (r, e, bf1, (w1, lg @ (x # tr)))"
          using \<open>pos < bufsize\<close> idle lrd' lrun False
          by (auto simp add: lim_def clock_def Let_def)
        moreover have "\<forall>y \<in> set (butlast (x # tr)). 0 \<le> fst y"
          using f1 idle x by simp
        moreover have "r = - 1 \<longleftrightarrow> x # tr \<noteq> [] \<and> fst (last (x # tr)) < 0"
          using f2 f0 by simp
        moreover have "r \<noteq> - 1 \<longrightarrow> r = pos + sum_list (map fst (x # tr)) \<and> r \<le> bufsize \<and>
            (r < bufsize \<longrightarrow> (if r \<noteq> 0 then byte_tmo_ms b else ack_tmo_ms b)
                < modbus_port_get_ms pl w1 - last_progress told (x # tr))"
          using f3 idle x by (auto simp add: last_progress_Cons)
        moreover have "pos < bufsize \<longrightarrow> x # tr \<noteq> []"
          by simp
        ultimately show ?thesis
          by blast
      qed
    qed
  qed
qed

lemma polls_nonneg:
  assumes "tr \<noteq> []" "\<forall>x \<in> set (butlast tr). (0::int) \<le> fst x" "\<not> fst (last tr) < 0"
  shows "\<forall>x \<in> set tr. 0 \<le> fst x"
proof -
  have "set tr = set (butlast tr @ [last tr])"
    using assms(1) by simp
  then have "set tr = set (butlast tr) \<union> {last tr}"
    by simp
  with assms(2,3) show ?thesis
    by auto
qed

lemma polls_zero:
  "\<forall>x \<in> set tr. (0::int) \<le> fst x \<Longrightarrow> sum_list (map fst tr) = 0 \<Longrightarrow>
   \<forall>x \<in> set tr. fst x = 0"
proof (induction tr)
  case Nil
  then show ?case by simp
next
  case (Cons x tr)
  then have "0 \<le> fst x" "0 \<le> sum_list (map fst tr)"
    by (auto intro!: sum_list_nonneg)
  with Cons.prems(2) have "fst x = 0" "sum_list (map fst tr) = 0"
    by simp_all
  with Cons show ?case
    by simp
qed

lemma read_loop_polls_ok:
  assumes cap: "read_within_capacity rd" and adv: "clock_advances pl rd J"
    and sz: "0 < bufsize"
    and run: "read_loop k pl rd b bf bufsize 0 (modbus_port_get_ms pl w) w = Some (r, e, bf1, w1)"
  shows "\<exists>tr. read_loop k (logged_port pl) (logged_read pl rd) (logged_backend pl b)
            bf bufsize 0 (modbus_port_get_ms pl w) (w, []) = Some (r, e, bf1, (w1, tr)) \<and>
       read_polls_ok b bufsize (modbus_port_get_ms pl w) (modbus_port_get_ms pl w1) r tr"
proof -
  from read_loop_polls [OF cap adv _ _ _ run, of "[]"] sz obtain tr where
    lrun: "read_loop k (logged_port pl) (logged_read pl rd) (logged_backend pl b)
            bf bufsize 0 (modbus_port_get_ms pl w) (w, []) = Some (r, e, bf1, (w1, tr))"
    and f0: "tr \<noteq> []"
    and f1: "\<forall>x \<in> set (butlast tr). 0 \<le> fst x"
    and f2: "r = - 1 \<longleftrightarrow> fst (last tr) < 0"
    and f3: "r \<noteq> - 1 \<longrightarrow> r = sum_list (map fst tr) \<and> r \<le> bufsize \<and>
          (r < bufsize \<longrightarrow> (if r \<noteq> 0 then byte_tmo_ms b else ack_tmo_ms b)
              < modbus_port_get_ms pl w1 - last_progress (modbus_port_get_ms pl w) tr)"
    by auto
  have "r = sum_list (map fst tr) \<and> 0 \<le> r \<and> r \<le> bufsize \<and>
         (r = 0 \<longrightarrow> (\<forall>x \<in> set tr. fst x = 0) \<and>
            modbus_port_get_ms pl w1 - modbus_port_get_ms pl w > ack_tmo_ms b) \<and>
         (r > 0 \<longrightarrow> r = bufsize \<or>
            modbus_port_get_ms pl w1 - last_progress (modbus_port_get_ms pl w) tr > byte_tmo_ms b)"
    if ok: "r \<noteq> - 1"
  proof -
    from ok f2 have "\<not> fst (last tr) < 0"
      by simp
    from polls_nonneg [OF f0 f1 this] have nn: "\<forall>x \<in> set tr. 0 \<le> fst x" .
    then have sn: "0 \<le> sum_list (map fst tr)"
      by (intro sum_list_nonneg) auto
    have zero: "\<forall>x \<in> set tr. fst x = 0" if "sum_list (map fst tr) = 0"
      using polls_zero [OF nn that] .
    have lp: "last_progress t0 tr = t0" if "\<forall>x \<in> set tr. fst x = 0" for t0
      using that by (induction tr arbitrary: t0) (simp_all add: last_progress_Nil last_progress_Cons)
    from ok f3 have r: "r = sum_list (map fst tr)" "r \<le> bufsize"
      and t: "r < bufsize \<longrightarrow> (if r \<noteq> 0 then byte_tmo_ms b else ack_tmo_ms b)
              < modbus_port_get_ms pl w1 - last_progress (modbus_port_get_ms pl w) tr"
      by auto
    show ?thesis
    proof (intro conjI impI)
      show "r = sum_list (map fst tr)" by (rule r)
      show "0 \<le> r" using r sn by simp
      show "r \<le> bufsize" by (rule r)
      show "\<forall>x \<in> set tr. fst x = 0" if "r = 0"
        using that r zero by simp
      show "ack_tmo_ms b < modbus_port_get_ms pl w1 - modbus_port_get_ms pl w" if "r = 0"
        using that r zero lp [of "modbus_port_get_ms pl w"] t sz by simp
      show "r = bufsize \<or>
          byte_tmo_ms b < modbus_port_get_ms pl w1 - last_progress (modbus_port_get_ms pl w) tr"
        if "0 < r"
        using that r t by auto
    qed
  qed
  with lrun f0 f1 f2 show ?thesis
    unfolding read_polls_ok_def by blast
qed

lemma backend_read_logged:
  assumes "0 < bufsize" "hinst b \<noteq> 0" "ops b = Some t" "ops_read t = Some rd"
  shows "modbus_backend_read k (logged_port pl) (Some (logged_backend pl b)) (Some buf) bufsize (w, lg) =
     map_option (\<lambda>(r, e, bf1, w1). (r, Some e, Some bf1, w1))
       (read_loop k (logged_port pl) (logged_read pl rd) (logged_backend pl b) buf bufsize 0
          (modbus_port_get_ms pl w) (w, lg))"
  using assms by (simp add: modbus_backend_read_def)

text \<open>
  C5, as the code has it. \<open>modbus_backend_read\<close> returns \<open>-1\<close> without reading the driver
  when the back end or the buffer is null, the size is not positive, the back end is not
  open, or the back end has no operations table or no read operation. Otherwise, for a
  driver read that stays within the capacity offered, a clock that advances in bounded
  steps and time-outs in range, the call returns: with enough fuel the loop ends, with
  one result whatever the fuel. Run over the driver that keeps the record of its reads,
  the call returns the same and leaves a record of the reads that it made. On that record:
  the driver was read at least once and no read but the last reported an error; the
  result is \<open>-1\<close> exactly when the last read of the driver reported an error; otherwise it
  is the sum \<open>n\<close> of what the reads returned, with \<open>0 \<le> n \<le> bufsize\<close>, where \<open>n = 0\<close> only if
  every read returned 0 and more than the response time-out has passed on the clock since
  the call started, and \<open>n > 0\<close> only if the buffer is full or more than the inter-byte
  time-out has passed on the clock since the last read that returned bytes.
\<close>

theorem backend_read_returns:
  "((bo = None \<or> bf = None \<or> bufsize \<le> 0 \<or>
      (\<exists>b. bo = Some b \<and> (hinst b = 0 \<or> ops b = None \<or>
         (\<exists>t. ops b = Some t \<and> ops_read t = None)))) \<longrightarrow>
      modbus_backend_read fuel pl bo bf bufsize w = Some (- 1, None, bf, w)) \<and>
   (0 < bufsize \<and> hinst b \<noteq> 0 \<and> ops b = Some t \<and> ops_read t = Some rd \<and>
    read_within_capacity rd \<and> clock_advances pl rd J \<and> timeouts_in_range b J \<longrightarrow>
      (\<exists>fuel0 r e bf1 w1 tr.
         (\<forall>k \<ge> fuel0.
            modbus_backend_read k pl (Some b) (Some buf) bufsize w
              = Some (r, Some e, Some bf1, w1) \<and>
            modbus_backend_read k (logged_port pl) (Some (logged_backend pl b)) (Some buf)
                bufsize (w, [])
              = Some (r, Some e, Some bf1, (w1, tr))) \<and>
         (\<forall>k res. modbus_backend_read k pl (Some b) (Some buf) bufsize w = Some res \<longrightarrow>
            res = (r, Some e, Some bf1, w1)) \<and>
         read_polls_ok b bufsize (modbus_port_get_ms pl w) (modbus_port_get_ms pl w1) r tr))"
proof (intro conjI impI)
  assume "bo = None \<or> bf = None \<or> bufsize \<le> 0 \<or>
      (\<exists>b. bo = Some b \<and> (hinst b = 0 \<or> ops b = None \<or>
         (\<exists>t. ops b = Some t \<and> ops_read t = None)))"
  then show "modbus_backend_read fuel pl bo bf bufsize w = Some (- 1, None, bf, w)"
    by (rule backend_read_early)
next
  assume a: "0 < bufsize \<and> hinst b \<noteq> 0 \<and> ops b = Some t \<and> ops_read t = Some rd \<and>
    read_within_capacity rd \<and> clock_advances pl rd J \<and> timeouts_in_range b J"
  define t0 where "t0 = modbus_port_get_ms pl w"
  define F where "F = ((\<lambda>(r, e, bf1, w1). (r, Some e, Some bf1, w1))
      :: int \<times> read_exit \<times> u8 list \<times> 'a \<Rightarrow> int \<times> read_exit option \<times> u8 list option \<times> 'a)"
  define G where "G = ((\<lambda>(r, e, bf1, w1). (r, Some e, Some bf1, w1))
      :: int \<times> read_exit \<times> u8 list \<times> ('a \<times> poll_log) \<Rightarrow>
         int \<times> read_exit option \<times> u8 list option \<times> ('a \<times> poll_log))"
  from a have eq: "modbus_backend_read k pl (Some b) (Some buf) bufsize w =
     map_option F (read_loop k pl rd b buf bufsize 0 t0 w)" for k
    by (simp add: backend_read_loop t0_def F_def)
  from a have leq: "modbus_backend_read k (logged_port pl) (Some (logged_backend pl b)) (Some buf)
       bufsize (w, []) =
     map_option G (read_loop k (logged_port pl) (logged_read pl rd) (logged_backend pl b)
       buf bufsize 0 t0 (w, []))" for k
    by (simp add: backend_read_logged t0_def G_def)
  have "0 < J"
    using a by (auto simp add: clock_advances_def dest!: spec [of _ w])
  then have "t0 - t0 \<le> max (max (ack_tmo_ms b) (byte_tmo_ms b)) 0 + J"
    by simp
  with a obtain k0 where "read_loop k0 pl rd b buf bufsize 0 t0 w \<noteq> None"
    using read_loop_terminates [of pl rd J b t0 w buf bufsize 0] unfolding t0_def by blast
  then obtain r e bf1 w1 where
    k0: "read_loop k0 pl rd b buf bufsize 0 t0 w = Some (r, e, bf1, w1)"
    by (metis not_Some_eq prod.exhaust)
  from a have cap: "read_within_capacity rd" and adv: "clock_advances pl rd J" and sz: "0 < bufsize"
    by simp_all
  from read_loop_polls_ok [OF cap adv sz k0 [unfolded t0_def]] obtain tr where
    l0: "read_loop k0 (logged_port pl) (logged_read pl rd) (logged_backend pl b)
            buf bufsize 0 t0 (w, []) = Some (r, e, bf1, (w1, tr))"
    and ok: "read_polls_ok b bufsize (modbus_port_get_ms pl w) (modbus_port_get_ms pl w1) r tr"
    unfolding t0_def by blast
  have up: "modbus_backend_read k pl (Some b) (Some buf) bufsize w
              = Some (r, Some e, Some bf1, w1) \<and>
            modbus_backend_read k (logged_port pl) (Some (logged_backend pl b)) (Some buf)
                bufsize (w, [])
              = Some (r, Some e, Some bf1, (w1, tr))"
    if "k0 \<le> k" for k
  proof -
    from that obtain j where "k = k0 + j"
      using le_Suc_ex by blast
    with read_loop_mono [OF k0, of j] read_loop_mono [OF l0, of j] show ?thesis
      by (simp add: eq leq F_def G_def)
  qed
  have uniq: "res = (r, Some e, Some bf1, w1)"
    if "modbus_backend_read k pl (Some b) (Some buf) bufsize w = Some res" for k res
  proof -
    from that obtain y where y: "read_loop k pl rd b buf bufsize 0 t0 w = Some y" and res: "res = F y"
      by (auto simp add: eq)
    from read_loop_mono [OF y, of k0] read_loop_mono [OF k0, of k]
    have "y = (r, e, bf1, w1)"
      by (simp add: add.commute)
    with res show ?thesis
      by (simp add: F_def)
  qed
  from up uniq ok show "\<exists>fuel0 r e bf1 w1 tr.
         (\<forall>k \<ge> fuel0.
            modbus_backend_read k pl (Some b) (Some buf) bufsize w
              = Some (r, Some e, Some bf1, w1) \<and>
            modbus_backend_read k (logged_port pl) (Some (logged_backend pl b)) (Some buf)
                bufsize (w, [])
              = Some (r, Some e, Some bf1, (w1, tr))) \<and>
         (\<forall>k res. modbus_backend_read k pl (Some b) (Some buf) bufsize w = Some res \<longrightarrow>
            res = (r, Some e, Some bf1, w1)) \<and>
         read_polls_ok b bufsize (modbus_port_get_ms pl w) (modbus_port_get_ms pl w1) r tr"
    by blast
qed

lemma stub_read_idle:
  "modbus_backend_read 160 (stub_port 0 0) (Some (stub_backend 0 0)) (Some [0, 0, 0, 0]) 4 0
   = Some (0, Some (Exit_ack_timeout 302), Some [0, 0, 0, 0], 302)"
  by code_simp

lemma stub_read_fail:
  "modbus_backend_read (Suc k) (stub_port (- 1) 0) (Some (stub_backend (- 1) 0))
     (Some [0, 0, 0, 0]) 4 0
   = Some (- 1, Some Exit_read_error, Some [0, 0, 0, 0], 0)"
  by (simp add: modbus_backend_read_def stub_defs)

lemma stub_read_fail_logged:
  "modbus_backend_read (Suc k) (logged_port (stub_port (- 1) 0))
     (Some (logged_backend (stub_port (- 1) 0) (stub_backend (- 1) 0))) (Some [0, 0, 0, 0]) 4 (0, [])
   = Some (- 1, Some Exit_read_error, Some [0, 0, 0, 0], (0, [(- 1, 0)]))"
  by (simp add: modbus_backend_read_def logged_read_def stub_defs)

theorem backend_read_returns_witness:
  "modbus_backend_read 1 (stub_port (- 1) 0) None (Some [0, 0, 0, 0]) 4 0
     = Some (- 1, None, Some [0, 0, 0, 0], 0) \<and>
   modbus_backend_read 160 (stub_port 0 0) (Some (stub_backend 0 0)) (Some [0, 0, 0, 0]) 4 0
     = Some (0, Some (Exit_ack_timeout 302), Some [0, 0, 0, 0], 302) \<and>
   hinst (stub_backend (- 1) 0) \<noteq> 0 \<and>
   ops (stub_backend (- 1) 0) = Some (mb_port_sock_ops (stub_port (- 1) 0)) \<and>
   ops_read (mb_port_sock_ops (stub_port (- 1) 0))
     = Some (modbus_port_tcp_read (stub_port (- 1) 0)) \<and>
   read_within_capacity (modbus_port_tcp_read (stub_port (- 1) 0)) \<and>
   clock_advances (stub_port (- 1) 0) (modbus_port_tcp_read (stub_port (- 1) 0)) 2 \<and>
   timeouts_in_range (stub_backend (- 1) 0) 2 \<and>
   modbus_backend_read 1 (stub_port (- 1) 0) (Some (stub_backend (- 1) 0)) (Some [0, 0, 0, 0]) 4 0
     = Some (- 1, Some Exit_read_error, Some [0, 0, 0, 0], 0) \<and>
   modbus_backend_read 1 (logged_port (stub_port (- 1) 0))
       (Some (logged_backend (stub_port (- 1) 0) (stub_backend (- 1) 0))) (Some [0, 0, 0, 0]) 4 (0, [])
     = Some (- 1, Some Exit_read_error, Some [0, 0, 0, 0], (0, [(- 1, 0)])) \<and>
   read_polls_ok (stub_backend (- 1) 0) 4 0 0 (- 1) [(- 1, 0)]"
proof -
  have c: "read_within_capacity (modbus_port_tcp_read (stub_port (- 1) 0))"
    by (simp add: read_within_capacity_def stub_port_def)
  have a: "clock_advances (stub_port (- 1) 0) (modbus_port_tcp_read (stub_port (- 1) 0)) 2"
    by (simp add: clock_advances_def stub_port_def)
  have r: "timeouts_in_range (stub_backend (- 1) 0) 2"
    by (simp add: timeouts_in_range_def stub_defs)
  have o: "ops (stub_backend (- 1) 0) = Some (mb_port_sock_ops (stub_port (- 1) 0))"
    "ops_read (mb_port_sock_ops (stub_port (- 1) 0))
       = Some (modbus_port_tcp_read (stub_port (- 1) 0))"
    "hinst (stub_backend (- 1) 0) \<noteq> 0"
    by (simp_all add: stub_backend_def mb_port_sock_ops_def)
  have g: "modbus_port_get_ms (stub_port (- 1) 0) v = v" for v
    by (simp add: stub_port_def)
  from backend_read_returns [of None "Some [0, 0, 0, 0]" 4 1 "stub_port (- 1) 0" 0
      "stub_backend (- 1) 0" "mb_port_sock_ops (stub_port (- 1) 0)"
      "modbus_port_tcp_read (stub_port (- 1) 0)" 2 "[0, 0, 0, 0]"] c a r o
  have early: "modbus_backend_read 1 (stub_port (- 1) 0) None (Some [0, 0, 0, 0]) 4 0
       = Some (- 1, None, Some [0, 0, 0, 0], 0)"
    and "\<exists>fuel0 r e bf1 w1 tr.
         (\<forall>k \<ge> fuel0.
            modbus_backend_read k (stub_port (- 1) 0) (Some (stub_backend (- 1) 0))
              (Some [0, 0, 0, 0]) 4 0 = Some (r, Some e, Some bf1, w1) \<and>
            modbus_backend_read k (logged_port (stub_port (- 1) 0))
              (Some (logged_backend (stub_port (- 1) 0) (stub_backend (- 1) 0)))
              (Some [0, 0, 0, 0]) 4 (0, []) = Some (r, Some e, Some bf1, (w1, tr))) \<and>
         (\<forall>k res. modbus_backend_read k (stub_port (- 1) 0) (Some (stub_backend (- 1) 0))
              (Some [0, 0, 0, 0]) 4 0 = Some res \<longrightarrow> res = (r, Some e, Some bf1, w1)) \<and>
         read_polls_ok (stub_backend (- 1) 0) 4 0 (modbus_port_get_ms (stub_port (- 1) 0) w1) r tr"
    by (simp_all add: g)
  then obtain fuel0 r e bf1 w1 tr where
    run: "modbus_backend_read (Suc fuel0) (logged_port (stub_port (- 1) 0))
              (Some (logged_backend (stub_port (- 1) 0) (stub_backend (- 1) 0)))
              (Some [0, 0, 0, 0]) 4 (0, []) = Some (r, Some e, Some bf1, (w1, tr))"
    and ok: "read_polls_ok (stub_backend (- 1) 0) 4 0 (modbus_port_get_ms (stub_port (- 1) 0) w1) r tr"
    by (metis le_Suc_eq order_refl)
  from run have "r = - 1" "w1 = 0" "tr = [(- 1, 0)]"
    by (auto simp add: stub_read_fail_logged)
  with ok have "read_polls_ok (stub_backend (- 1) 0) 4 0 0 (- 1) [(- 1, 0)]"
    by (simp add: g)
  with early c a r o stub_read_idle stub_read_fail [of 0] stub_read_fail_logged [of 0]
  show ?thesis
    by simp
qed

text \<open>
  The claim C5 as stated lists the null arguments, the non-positive size, the closed back
  end and the driver error as the only causes of \<open>-1\<close>. An open back end whose
  operations table has no read operation, with a buffer of four bytes, gets \<open>-1\<close> too,
  before any read of the driver.
\<close>

theorem backend_read_no_read_op:
  "modbus_backend_read 1 (stub_port 0 0)
     (Some ((stub_backend 0 0)\<lparr>ops := Some ((mb_port_sock_ops (stub_port 0 0))\<lparr>ops_read := None\<rparr>)\<rparr>))
     (Some [0, 0, 0, 0]) 4 0
     = Some (- 1, None, Some [0, 0, 0, 0], 0) \<and>
   hinst ((stub_backend 0 0)\<lparr>ops := Some ((mb_port_sock_ops (stub_port 0 0))\<lparr>ops_read := None\<rparr>)\<rparr>) = 5"
  by (simp add: modbus_backend_read_def stub_defs)

lemma backend_close_result:
  assumes "modbus_backend_close (Some b) wr = (rc, bo, w1)"
  shows "\<exists>b1. bo = Some b1 \<and> closed_by b wr b1 w1 \<and>
    ((rc = 0 \<and> hinst b1 = 0) \<or> (rc = - 1 \<and> b1 = b \<and> hinst b \<noteq> 0))"
proof (cases "hinst b = 0")
  case True
  with assms show ?thesis
    by (auto simp add: modbus_backend_close_def closed_by_def)
next
  case False
  show ?thesis
  proof (cases "ops b")
    case None
    with assms False show ?thesis
      by (auto simp add: modbus_backend_close_def closed_by_def)
  next
    case (Some t)
    note t = this
    show ?thesis
    proof (cases "ops_close t")
      case None
      with assms False t show ?thesis
        by (auto simp add: modbus_backend_close_def closed_by_def)
    next
      case (Some f)
      obtain r wc where f: "f (hinst b) wr = (r, wc)"
        by (cases "f (hinst b) wr") auto
      show ?thesis
      proof (cases "r = 0")
        case True
        with assms False t Some f show ?thesis
          by (auto simp add: modbus_backend_close_def closed_by_def)
      next
        case nz: False
        with assms False t Some f show ?thesis
          by (auto simp add: modbus_backend_close_def closed_by_def)
      qed
    qed
  qed
qed

text \<open>
  C7, as the code has it. Whenever \<open>modbus_recv\<close> or \<open>modbus_send\<close> returns \<open>-1\<close>, the read
  or the write of the back end returned \<open>-1\<close>, and \<open>modbus_backend_close\<close> was then called
  on the back end of the instance, in the world that the read or the write left: the
  instance and the world returned are the ones that this call of \<open>modbus_backend_close\<close>
  left, and its result was dropped. So the close operation of the driver, when there is a
  handle and a close operation, has run on the handle. Afterwards the handle is null (the
  close returned 0), or else the close returned \<open>-1\<close> and the back end is as it was, its
  handle not null.
\<close>

theorem recv_send_error_closes:
  "(modbus_recv fuel pl (Some inst) bf bufsize w = Some (Returns (- 1, inst1, bf1, w1)) \<and>
    backend inst = Some b \<longrightarrow>
      (\<exists>e wr rc b1.
         modbus_backend_read fuel pl (Some b) bf bufsize w = Some (- 1, e, bf1, wr) \<and>
         modbus_backend_close (Some b) wr = (rc, Some b1, w1) \<and>
         inst1 = inst\<lparr>backend := Some b1\<rparr> \<and>
         closed_by b wr b1 w1 \<and>
         ((rc = 0 \<and> hinst b1 = 0) \<or> (rc = - 1 \<and> b1 = b \<and> hinst b \<noteq> 0)))) \<and>
   (modbus_send (Some inst) bf sz w = Returns (- 1, inst2, w2) \<and> backend inst = Some b \<longrightarrow>
      (\<exists>wr rc b2.
         modbus_backend_write (Some b) bf sz w = (- 1, wr) \<and>
         modbus_backend_close (Some b) wr = (rc, Some b2, w2) \<and>
         inst2 = inst\<lparr>backend := Some b2\<rparr> \<and>
         closed_by b wr b2 w2 \<and>
         ((rc = 0 \<and> hinst b2 = 0) \<or> (rc = - 1 \<and> b2 = b \<and> hinst b \<noteq> 0))))"
proof (intro conjI impI)
  assume a: "modbus_recv fuel pl (Some inst) bf bufsize w = Some (Returns (- 1, inst1, bf1, w1)) \<and>
    backend inst = Some b"
  then obtain len e bfr wr where
    rd: "modbus_backend_read fuel pl (Some b) bf bufsize w = Some (len, e, bfr, wr)"
    by (auto simp add: modbus_recv_def split: option.splits if_splits prod.splits)
  with a have neg: "len < 0"
    by (auto simp add: modbus_recv_def split: option.splits if_splits prod.splits)
  obtain rc bo wc where cl: "modbus_backend_close (Some b) wr = (rc, bo, wc)"
    by (cases "modbus_backend_close (Some b) wr") auto
  with a rd neg have res: "len = - 1" "bfr = bf1" "inst1 = inst\<lparr>backend := bo\<rparr>" "wc = w1"
    by (auto simp add: modbus_recv_def split: option.splits if_splits prod.splits)
  from backend_close_result [OF cl] obtain b1 where
    "bo = Some b1" "closed_by b wr b1 wc"
    "(rc = 0 \<and> hinst b1 = 0) \<or> (rc = - 1 \<and> b1 = b \<and> hinst b \<noteq> 0)"
    by blast
  with rd cl res
  show "\<exists>e wr rc b1.
         modbus_backend_read fuel pl (Some b) bf bufsize w = Some (- 1, e, bf1, wr) \<and>
         modbus_backend_close (Some b) wr = (rc, Some b1, w1) \<and>
         inst1 = inst\<lparr>backend := Some b1\<rparr> \<and>
         closed_by b wr b1 w1 \<and>
         ((rc = 0 \<and> hinst b1 = 0) \<or> (rc = - 1 \<and> b1 = b \<and> hinst b \<noteq> 0))"
    by blast
next
  assume a: "modbus_send (Some inst) bf sz w = Returns (- 1, inst2, w2) \<and> backend inst = Some b"
  obtain len wr where wr: "modbus_backend_write (Some b) bf sz w = (len, wr)"
    by (cases "modbus_backend_write (Some b) bf sz w") auto
  with a have neg: "len < 0"
    by (auto simp add: modbus_send_def split: option.splits if_splits prod.splits)
  obtain rc bo wc where cl: "modbus_backend_close (Some b) wr = (rc, bo, wc)"
    by (cases "modbus_backend_close (Some b) wr") auto
  with a wr neg have res: "len = - 1" "inst2 = inst\<lparr>backend := bo\<rparr>" "wc = w2"
    by (auto simp add: modbus_send_def split: option.splits if_splits prod.splits)
  from backend_close_result [OF cl] obtain b2 where
    "bo = Some b2" "closed_by b wr b2 wc"
    "(rc = 0 \<and> hinst b2 = 0) \<or> (rc = - 1 \<and> b2 = b \<and> hinst b \<noteq> 0)"
    by blast
  with wr cl res
  show "\<exists>wr rc b2.
         modbus_backend_write (Some b) bf sz w = (- 1, wr) \<and>
         modbus_backend_close (Some b) wr = (rc, Some b2, w2) \<and>
         inst2 = inst\<lparr>backend := Some b2\<rparr> \<and>
         closed_by b wr b2 w2 \<and>
         ((rc = 0 \<and> hinst b2 = 0) \<or> (rc = - 1 \<and> b2 = b \<and> hinst b \<noteq> 0))"
    by blast
qed

lemmas slow_defs = stub_inst_slow_close_def stub_backend_slow_close_def stub_port_slow_close_def
  stub_defs

lemma recv_stub_fail_ok:
  "modbus_recv 1 (stub_port_slow_close (- 1) 0) (Some (stub_inst_slow_close (- 1) 0))
     (Some [0, 0, 0, 0]) 4 0
     = Some (Returns (- 1,
         (stub_inst_slow_close (- 1) 0)
           \<lparr>backend := Some ((stub_backend_slow_close (- 1) 0)\<lparr>hinst := 0\<rparr>)\<rparr>,
         Some [0, 0, 0, 0], 1000))"
  by (simp add: modbus_recv_def modbus_backend_read_def modbus_backend_close_def slow_defs)

lemma send_stub_fail_ok:
  "modbus_send (Some (stub_inst_slow_close (- 1) 0)) (Some [0x11, 0x03]) 2 0
     = Returns (- 1,
         (stub_inst_slow_close (- 1) 0)
           \<lparr>backend := Some ((stub_backend_slow_close (- 1) 0)\<lparr>hinst := 0\<rparr>)\<rparr>, 1000)"
  by (simp add: modbus_send_def modbus_backend_write_def modbus_backend_close_def slow_defs)

lemma stub_slow_read:
  "modbus_backend_read 1 (stub_port_slow_close (- 1) 0) (Some (stub_backend_slow_close (- 1) 0))
     (Some [0, 0, 0, 0]) 4 0 = Some (- 1, Some Exit_read_error, Some [0, 0, 0, 0], 0)"
  by (simp add: modbus_backend_read_def slow_defs)

lemma stub_slow_write:
  "modbus_backend_write (Some (stub_backend_slow_close (- 1) 0)) (Some [0x11, 0x03]) 2 0 = (- 1, 0)"
  by (simp add: modbus_backend_write_def slow_defs)

lemma stub_slow_close:
  "modbus_backend_close (Some (stub_backend_slow_close (- 1) 0)) 0
     = (0, Some ((stub_backend_slow_close (- 1) 0)\<lparr>hinst := 0\<rparr>), 1000)"
  by (simp add: modbus_backend_close_def slow_defs)

theorem recv_send_error_closes_witness:
  "modbus_recv 1 (stub_port_slow_close (- 1) 0) (Some (stub_inst_slow_close (- 1) 0))
     (Some [0, 0, 0, 0]) 4 0
     = Some (Returns (- 1,
         (stub_inst_slow_close (- 1) 0)
           \<lparr>backend := Some ((stub_backend_slow_close (- 1) 0)\<lparr>hinst := 0\<rparr>)\<rparr>,
         Some [0, 0, 0, 0], 1000)) \<and>
   modbus_send (Some (stub_inst_slow_close (- 1) 0)) (Some [0x11, 0x03]) 2 0
     = Returns (- 1,
         (stub_inst_slow_close (- 1) 0)
           \<lparr>backend := Some ((stub_backend_slow_close (- 1) 0)\<lparr>hinst := 0\<rparr>)\<rparr>, 1000) \<and>
   backend (stub_inst_slow_close (- 1) 0) = Some (stub_backend_slow_close (- 1) 0) \<and>
   modbus_backend_read 1 (stub_port_slow_close (- 1) 0) (Some (stub_backend_slow_close (- 1) 0))
     (Some [0, 0, 0, 0]) 4 0 = Some (- 1, Some Exit_read_error, Some [0, 0, 0, 0], 0) \<and>
   modbus_backend_write (Some (stub_backend_slow_close (- 1) 0)) (Some [0x11, 0x03]) 2 0
     = (- 1, 0) \<and>
   modbus_backend_close (Some (stub_backend_slow_close (- 1) 0)) 0
     = (0, Some ((stub_backend_slow_close (- 1) 0)\<lparr>hinst := 0\<rparr>), 1000) \<and>
   closed_by (stub_backend_slow_close (- 1) 0) 0
     ((stub_backend_slow_close (- 1) 0)\<lparr>hinst := 0\<rparr>) 1000 \<and>
   hinst ((stub_backend_slow_close (- 1) 0)\<lparr>hinst := 0\<rparr>) = 0"
proof -
  have i: "backend (stub_inst_slow_close (- 1) 0) = Some (stub_backend_slow_close (- 1) 0)"
    by (simp add: stub_inst_slow_close_def)
  from recv_send_error_closes [of 1 "stub_port_slow_close (- 1) 0" "stub_inst_slow_close (- 1) 0"
      "Some [0, 0, 0, 0]" 4 0
      "(stub_inst_slow_close (- 1) 0)
         \<lparr>backend := Some ((stub_backend_slow_close (- 1) 0)\<lparr>hinst := 0\<rparr>)\<rparr>"
      "Some [0, 0, 0, 0]" 1000 "stub_backend_slow_close (- 1) 0"]
    recv_stub_fail_ok i
  obtain e wr rc b1 where
    "modbus_backend_read 1 (stub_port_slow_close (- 1) 0) (Some (stub_backend_slow_close (- 1) 0))
       (Some [0, 0, 0, 0]) 4 0 = Some (- 1, e, Some [0, 0, 0, 0], wr)"
    "modbus_backend_close (Some (stub_backend_slow_close (- 1) 0)) wr = (rc, Some b1, 1000)"
    "closed_by (stub_backend_slow_close (- 1) 0) wr b1 1000"
    by blast
  then have after_recv: "closed_by (stub_backend_slow_close (- 1) 0) 0
     ((stub_backend_slow_close (- 1) 0)\<lparr>hinst := 0\<rparr>) 1000"
    using stub_slow_read stub_slow_close by auto
  from recv_send_error_closes [where inst = "stub_inst_slow_close (- 1) 0"
      and bf = "Some [0x11, 0x03]" and sz = 2 and w = 0
      and ?inst2.0 = "(stub_inst_slow_close (- 1) 0)
         \<lparr>backend := Some ((stub_backend_slow_close (- 1) 0)\<lparr>hinst := 0\<rparr>)\<rparr>"
      and ?w2.0 = 1000 and b = "stub_backend_slow_close (- 1) 0"]
    send_stub_fail_ok i
  obtain wr rc b2 where
    "modbus_backend_write (Some (stub_backend_slow_close (- 1) 0)) (Some [0x11, 0x03]) 2 0
       = (- 1, wr)"
    "modbus_backend_close (Some (stub_backend_slow_close (- 1) 0)) wr = (rc, Some b2, 1000)"
    "(rc = 0 \<and> hinst b2 = 0) \<or>
     (rc = - 1 \<and> b2 = stub_backend_slow_close (- 1) 0 \<and>
      hinst (stub_backend_slow_close (- 1) 0) \<noteq> 0)"
    by blast
  then have after_send: "hinst ((stub_backend_slow_close (- 1) 0)\<lparr>hinst := 0\<rparr>) = 0"
    using stub_slow_write stub_slow_close by auto
  from after_recv after_send
    recv_stub_fail_ok send_stub_fail_ok i stub_slow_read stub_slow_write stub_slow_close
  show ?thesis
    by simp
qed

text \<open>
  The claim C7 as stated has the handle null after every return of \<open>-1\<close>. With a driver
  whose read, write and close all fail, \<open>modbus_recv\<close> and \<open>modbus_send\<close> return \<open>-1\<close>
  and the instance is as before, its back end still holding the handle 5.
\<close>

theorem recv_send_error_handle_kept:
  "modbus_recv 1 (stub_port (- 1) (- 1)) (Some (stub_inst (- 1) (- 1))) (Some [0, 0, 0, 0]) 4 0
     = Some (Returns (- 1, stub_inst (- 1) (- 1), Some [0, 0, 0, 0], 0)) \<and>
   modbus_send (Some (stub_inst (- 1) (- 1))) (Some [0x11, 0x03]) 2 0
     = Returns (- 1, stub_inst (- 1) (- 1), 0) \<and>
   map_option hinst (backend (stub_inst (- 1) (- 1))) = Some 5"
  by (simp add: modbus_recv_def modbus_send_def modbus_backend_read_def modbus_backend_write_def
      modbus_backend_close_def stub_defs)

end
